theory Spec2Isabelle
  imports Complex_Main "HOL-Library.AList" "HOL-Library.Log_Nat"
begin

section \<open>JavaScript values used by \<open>autoCRUD\<close>\<close>

text \<open>
  \<open>autoCRUD(app, model, baseRoute, options)\<close> normalises its options once and registers
  five route handlers that close over the normalised options \<open>opts\<close>.

  A Number is a binary64 value. The handlers hold integer-valued numbers, the two
  infinities and \<open>NaN\<close>: \<open>Num n\<close> stands for the binary64 number with the integer value
  \<open>n\<close>, and every arithmetic operation rounds its exact result to binary64. The one
  fractional intermediate, the quotient inside \<open>Math.ceil(total / limit)\<close>, is rounded by
  \<open>round_frac\<close>. The numeric options are declared \<open>number\<close> in \<open>AutoCrudOptions\<close>;
  fractional option values are not represented, and \<open>-0\<close> is \<open>0\<close>.
  Strings are lists of code units below 256.
\<close>

datatype jsnum = Num int | PInf | NInf | NaN

text \<open>
  Rounding an integer to binary64, to nearest with ties to even: integers up to \<open>2^53\<close> in
  magnitude are exact; a larger one keeps its 53 leading bits, and a result of magnitude
  \<open>2^1024\<close> or more is an infinity.
\<close>

definition round_int :: "int \<Rightarrow> jsnum" where
  "round_int n =
     (if \<bar>n\<bar> \<le> 2 ^ 53 then Num n
      else
        (let k = nat (bitlen \<bar>n\<bar> - 53);
             q = \<bar>n\<bar> div 2 ^ k;
             r = \<bar>n\<bar> mod 2 ^ k;
             q' = (if 2 * r > 2 ^ k \<or> (2 * r = 2 ^ k \<and> odd q) then q + 1 else q);
             m = q' * 2 ^ k
         in if m \<ge> 2 ^ 1024 then (if n < 0 then NInf else PInf)
            else Num (if n < 0 then - m else m)))"

text \<open>
  Rounding the quotient \<open>a / b\<close> of two positive integers to binary64: the result is
  \<open>r * 2^k\<close> for the returned pair \<open>(r, k)\<close>. \<open>e\<close> is the binary exponent of the
  quotient (\<open>2^e \<le> a / b < 2^(e + 1)\<close>), \<open>2^k\<close> the spacing of binary64 numbers there
  (subnormal below \<open>2^-1022\<close>), and \<open>r\<close> the quotient in units of that spacing, rounded to
  nearest with ties to even.
\<close>

definition round_frac :: "int \<Rightarrow> int \<Rightarrow> int \<times> int" where
  "round_frac a b =
     (let e0 = bitlen a - bitlen b;
          e = (if b * 2 ^ nat e0 \<le> a * 2 ^ nat (- e0) then e0 else e0 - 1);
          k = max e (- 1022) - 52;
          N = a * 2 ^ nat (- k);
          D = b * 2 ^ nat k;
          f = N div D;
          r = N mod D
      in (if 2 * r > D \<or> (2 * r = D \<and> odd f) then f + 1 else f, k))"

text \<open>\<open>Math.ceil(t / l)\<close> for integers \<open>t\<close> and \<open>l \<noteq> 0\<close>: the ceiling of the rounded
  quotient.\<close>

definition ceil_quot :: "int \<Rightarrow> int \<Rightarrow> int" where
  "ceil_quot t l =
     (if t = 0 then 0
      else
        (let negative = ((t < 0) \<noteq> (l < 0));
             (r, k) = round_frac \<bar>t\<bar> \<bar>l\<bar>
         in if k \<ge> 0 then (if negative then - (r * 2 ^ nat k) else r * 2 ^ nat k)
            else (if negative then - (r div 2 ^ nat (- k)) else - ((- r) div 2 ^ nat (- k)))))"

fun truthy_num :: "jsnum \<Rightarrow> bool" where
  "truthy_num (Num n) = (n \<noteq> 0)"
| "truthy_num PInf = True"
| "truthy_num NInf = True"
| "truthy_num NaN = False"

text \<open>\<open>a < b\<close> on numbers; every comparison with \<open>NaN\<close> is false.\<close>

fun num_less :: "jsnum \<Rightarrow> jsnum \<Rightarrow> bool" where
  "num_less NaN b = False"
| "num_less a NaN = False"
| "num_less (Num a) (Num b) = (a < b)"
| "num_less (Num a) PInf = True"
| "num_less (Num a) NInf = False"
| "num_less PInf b = False"
| "num_less NInf NInf = False"
| "num_less NInf b = True"

text \<open>\<open>a <= b\<close> on numbers.\<close>

definition num_le :: "jsnum \<Rightarrow> jsnum \<Rightarrow> bool" where
  "num_le a b = (a \<noteq> NaN \<and> b \<noteq> NaN \<and> \<not> num_less b a)"

text \<open>\<open>Math.max(a, b)\<close> and \<open>Math.min(a, b)\<close>.\<close>

definition js_max :: "jsnum \<Rightarrow> jsnum \<Rightarrow> jsnum" where
  "js_max a b = (if a = NaN \<or> b = NaN then NaN else if num_less a b then b else a)"

definition js_min :: "jsnum \<Rightarrow> jsnum \<Rightarrow> jsnum" where
  "js_min a b = (if a = NaN \<or> b = NaN then NaN else if num_less b a then b else a)"

text \<open>\<open>a - b\<close> and \<open>a * b\<close>.\<close>

fun js_sub :: "jsnum \<Rightarrow> jsnum \<Rightarrow> jsnum" where
  "js_sub NaN b = NaN"
| "js_sub a NaN = NaN"
| "js_sub (Num a) (Num b) = round_int (a - b)"
| "js_sub (Num a) PInf = NInf"
| "js_sub (Num a) NInf = PInf"
| "js_sub PInf PInf = NaN"
| "js_sub PInf b = PInf"
| "js_sub NInf NInf = NaN"
| "js_sub NInf b = NInf"

text \<open>The sign of a non-zero number: \<open>True\<close> when negative.\<close>

fun is_negative :: "jsnum \<Rightarrow> bool" where
  "is_negative (Num n) = (n < 0)"
| "is_negative NInf = True"
| "is_negative PInf = False"
| "is_negative NaN = False"

fun is_infinite :: "jsnum \<Rightarrow> bool" where
  "is_infinite PInf = True"
| "is_infinite NInf = True"
| "is_infinite a = False"

definition signed_inf :: "bool \<Rightarrow> jsnum" where
  "signed_inf negative = (if negative then NInf else PInf)"

definition js_mul :: "jsnum \<Rightarrow> jsnum \<Rightarrow> jsnum" where
  "js_mul a b =
     (case (a, b) of
        (Num x, Num y) \<Rightarrow> round_int (x * y)
      | _ \<Rightarrow>
          if a = NaN \<or> b = NaN \<or> a = Num 0 \<or> b = Num 0 then NaN
          else signed_inf (is_negative a \<noteq> is_negative b))"

text \<open>\<open>Math.ceil(t / l)\<close>.\<close>

definition js_ceil_div :: "jsnum \<Rightarrow> jsnum \<Rightarrow> jsnum" where
  "js_ceil_div t l =
     (case (t, l) of
        (Num x, Num y) \<Rightarrow>
          if y \<noteq> 0 then Num (ceil_quot x y)
          else if x = 0 then NaN
          else signed_inf (x < 0)
      | _ \<Rightarrow>
          if t = NaN \<or> l = NaN \<or> (is_infinite t \<and> is_infinite l) then NaN
          else if is_infinite l then Num 0
          else signed_inf (is_negative t \<noteq> is_negative l))"

text \<open>A value of arbitrary type, for the places where the code only tests truthiness
  or strict equality.\<close>

datatype jsval = JUndefined | JNull | JBool bool | JNum int | JNaN | JStr string

fun truthy :: "jsval \<Rightarrow> bool" where
  "truthy JUndefined = False"
| "truthy JNull = False"
| "truthy (JBool b) = b"
| "truthy (JNum n) = (n \<noteq> 0)"
| "truthy JNaN = False"
| "truthy (JStr s) = (s \<noteq> [])"

text \<open>\<open>x || y\<close> on values.\<close>

definition or_else :: "jsval \<Rightarrow> jsval \<Rightarrow> jsval" where
  "or_else x y = (if truthy x then x else y)"

text \<open>\<open>x !== false\<close>: strict inequality, no coercion.\<close>

definition not_false :: "jsval \<Rightarrow> bool" where
  "not_false x = (x \<noteq> JBool False)"

text \<open>\<open>x || d\<close> on numbers.\<close>

definition num_or :: "jsnum \<Rightarrow> jsnum \<Rightarrow> jsnum" where
  "num_or x d = (if truthy_num x then x else d)"

text \<open>\<open>x || d\<close> where \<open>x\<close> is \<open>number | undefined\<close> (\<open>None\<close> is \<open>undefined\<close>).\<close>

fun opt_num_or :: "jsnum option \<Rightarrow> jsnum \<Rightarrow> jsnum" where
  "opt_num_or None d = d"
| "opt_num_or (Some x) d = num_or x d"

text \<open>\<open>x || d\<close> where \<open>x\<close> is \<open>string | undefined\<close>: the empty string is falsy.\<close>

fun opt_str_or :: "string option \<Rightarrow> string \<Rightarrow> string" where
  "opt_str_or None d = d"
| "opt_str_or (Some s) d = (if s \<noteq> [] then s else d)"

text \<open>\<open>x || d\<close> where \<open>x\<close> is an array, an object or \<open>undefined\<close>: arrays and objects
  are always truthy.\<close>

fun opt_or :: "'a option \<Rightarrow> 'a \<Rightarrow> 'a" where
  "opt_or None d = d"
| "opt_or (Some x) d = x"

subsection \<open>\<open>parseInt\<close> with no radix argument\<close>

definition isWhiteSpace :: "char \<Rightarrow> bool" where
  "isWhiteSpace c = (c \<in> set [CHR 0x09, CHR 0x0A, CHR 0x0B, CHR 0x0C, CHR 0x0D, CHR 0x20, CHR 0xA0])"

definition digitValue :: "char \<Rightarrow> nat option" where
  "digitValue c = map_of
     [(CHR ''0'', 0), (CHR ''1'', 1), (CHR ''2'', 2), (CHR ''3'', 3), (CHR ''4'', 4),
      (CHR ''5'', 5), (CHR ''6'', 6), (CHR ''7'', 7), (CHR ''8'', 8), (CHR ''9'', 9),
      (CHR ''a'', 10), (CHR ''b'', 11), (CHR ''c'', 12), (CHR ''d'', 13), (CHR ''e'', 14),
      (CHR ''f'', 15),
      (CHR ''A'', 10), (CHR ''B'', 11), (CHR ''C'', 12), (CHR ''D'', 13), (CHR ''E'', 14),
      (CHR ''F'', 15)] c"

text \<open>The value of \<open>c\<close> as a digit of radix \<open>R\<close>, if it is one.\<close>

definition radixDigit :: "nat \<Rightarrow> char \<Rightarrow> nat option" where
  "radixDigit R c = (case digitValue c of
       None \<Rightarrow> None
     | Some d \<Rightarrow> if d < R then Some d else None)"

fun digitsValue :: "nat \<Rightarrow> nat \<Rightarrow> string \<Rightarrow> nat" where
  "digitsValue R acc [] = acc"
| "digitsValue R acc (c # cs) =
     digitsValue R (acc * R + (case radixDigit R c of Some d \<Rightarrow> d | None \<Rightarrow> 0)) cs"

text \<open>
  ECMAScript \<open>parseInt(string)\<close>: leading white space is skipped, one sign is read, a
  \<open>0x\<close> or \<open>0X\<close> prefix selects radix 16 (otherwise 10), and the longest prefix of digits
  is the value, rounded to binary64 (to nearest, as V8 does; the standard leaves the
  rounding of long decimal inputs to the implementation); with no digit the result is
  \<open>NaN\<close>. Whatever follows the digits is ignored.
\<close>

definition parseInt :: "string \<Rightarrow> jsnum" where
  "parseInt inputString =
     (let S = dropWhile isWhiteSpace inputString;
          negative = (take 1 S = ''-'');
          S1 = (if take 1 S = ''+'' \<or> take 1 S = ''-'' then drop 1 S else S);
          hex = (take 2 S1 = ''0x'' \<or> take 2 S1 = ''0X'');
          R = (if hex then 16 else 10);
          S2 = (if hex then drop 2 S1 else S1);
          Z = takeWhile (\<lambda>c. radixDigit R c \<noteq> None) S2
      in if Z = [] then NaN
         else round_int ((if negative then - 1 else 1) * int (digitsValue R 0 Z)))"

text \<open>
  A value of \<open>req.query\<close> as the default query parser of Express 5 delivers it: a string,
  or the array of the strings of a repeated parameter.
\<close>

datatype qval = QStr string | QArr "string list"

text \<open>\<open>Array.prototype.join\<close> with the separator \<open>","\<close>.\<close>

fun join_comma :: "string list \<Rightarrow> string" where
  "join_comma [] = []"
| "join_comma [x] = x"
| "join_comma (x # y # ys) = x @ '','' @ join_comma (y # ys)"

text \<open>\<open>ToString\<close> of a query parameter that may be missing, as \<open>parseInt\<close> applies it:
  a missing property reads as \<open>undefined\<close>, which converts to the string \<open>"undefined"\<close>;
  an array converts to its elements joined by commas.\<close>

fun toString :: "qval option \<Rightarrow> string" where
  "toString None = ''undefined''"
| "toString (Some (QStr s)) = s"
| "toString (Some (QArr xs)) = join_comma xs"

section \<open>Options and their normalisation\<close>

text \<open>
  An object with string keys is the association list of its own properties: the keys in
  property order, each key once.
\<close>

type_synonym 'a obj = "(string \<times> 'a) list"
type_synonym query = "qval obj"
type_synonym filter_obj = "qval obj"
type_synonym projection = "int obj"

record 'b request =
  req_query :: query
  req_params_id :: string
  req_body :: 'b

text \<open>A thrown value (or the reason of a rejected promise): \<open>null\<close> or \<open>undefined\<close>,
  or any other value, represented by what its \<open>message\<close> property reads as
  (\<open>undefined\<close> when it has none).\<close>

datatype thrown = ThrownNullish | Thrown jsval

text \<open>An external call (accessor operation, hook, validation predicate) runs on the world
  outside the handler (the store and every object the callbacks may mutate), changes it,
  and either returns or throws.\<close>

type_synonym ('a, 'w) effect = "'w \<Rightarrow> (thrown + 'a) \<times> 'w"

record ('w, 'b, 'd) hooks =
  beforeCreate :: "('b request \<Rightarrow> 'b \<Rightarrow> (unit, 'w) effect) option"
  afterCreate :: "('b request \<Rightarrow> 'd \<Rightarrow> (unit, 'w) effect) option"
  beforeUpdate :: "('b request \<Rightarrow> 'b \<Rightarrow> (unit, 'w) effect) option"
  afterUpdate :: "('b request \<Rightarrow> 'd \<Rightarrow> (unit, 'w) effect) option"
  beforeDelete :: "('b request \<Rightarrow> string \<Rightarrow> (unit, 'w) effect) option"
  afterDelete :: "('b request \<Rightarrow> string \<Rightarrow> (unit, 'w) effect) option"

text \<open>The caller's options (\<open>AutoCrudOptions\<close>); \<open>None\<close> is an absent property. The two
  \<open>enabled\<close> flags are only compared with \<open>false\<close>, so they may hold any value.\<close>

record pagination_options =
  po_enabled :: jsval
  po_defaultLimit :: "jsnum option"
  po_maxLimit :: "jsnum option"

record sort_options =
  so_default :: "string option"
  so_allowed :: "string list option"

record filter_options =
  fo_enabled :: jsval
  fo_allowed :: "string list option"

record ('w, 'b, 'd) options =
  o_pagination :: "pagination_options option"
  o_sort :: "sort_options option"
  o_filter :: "filter_options option"
  o_projection :: "projection option"
  o_populate :: "string list option"
  o_validateBody :: "('b \<Rightarrow> (jsval, 'w) effect) option"
  o_hooks :: "('w, 'b, 'd) hooks option"

text \<open>The normalised options \<open>opts\<close>. The middleware chains are run by the router before
  a handler and are not part of the model.\<close>

record ('w, 'b, 'd) opts =
  pagination_enabled :: bool
  defaultLimit :: jsnum
  maxLimit :: jsnum
  sort_default :: string
  sort_allowed :: "string list"
  filter_enabled :: bool
  filter_allowed :: "string list"
  projection :: projection
  populate :: "string list"
  validateBody :: "('b \<Rightarrow> (jsval, 'w) effect) option"
  hooks :: "('w, 'b, 'd) hooks"

text \<open>\<open>options.pagination?.enabled\<close> and its siblings: \<open>undefined\<close> when the sub-object
  is absent.\<close>

fun chain_val :: "'a option \<Rightarrow> ('a \<Rightarrow> jsval) \<Rightarrow> jsval" where
  "chain_val None f = JUndefined"
| "chain_val (Some x) f = f x"

fun chain :: "'a option \<Rightarrow> ('a \<Rightarrow> 'c option) \<Rightarrow> 'c option" where
  "chain None f = None"
| "chain (Some x) f = f x"

definition no_hooks :: "('w, 'b, 'd) hooks" where
  "no_hooks = \<lparr>beforeCreate = None, afterCreate = None, beforeUpdate = None,
     afterUpdate = None, beforeDelete = None, afterDelete = None\<rparr>"

definition normalize_options :: "('w, 'b, 'd) options \<Rightarrow> ('w, 'b, 'd) opts" where
  "normalize_options options =
     \<lparr>pagination_enabled = not_false (chain_val (o_pagination options) po_enabled),
      defaultLimit = opt_num_or (chain (o_pagination options) po_defaultLimit) (Num 20),
      maxLimit = opt_num_or (chain (o_pagination options) po_maxLimit) (Num 100),
      sort_default = opt_str_or (chain (o_sort options) so_default) ''-createdAt'',
      sort_allowed = opt_or (chain (o_sort options) so_allowed) [],
      filter_enabled = not_false (chain_val (o_filter options) fo_enabled),
      filter_allowed = opt_or (chain (o_filter options) fo_allowed) [],
      projection = opt_or (o_projection options) [],
      populate = opt_or (o_populate options) [],
      validateBody = o_validateBody options,
      hooks = opt_or (o_hooks options) no_hooks\<rparr>"

section \<open>Deriving the query intent\<close>

text \<open>
  \<open>filter[key] = v\<close> on the plain object \<open>filter\<close>: the value is stored under the key,
  except for the key \<open>__proto__\<close>, where the assignment goes to the setter inherited from
  \<open>Object.prototype\<close> and no property is stored (an array value becomes the prototype of
  \<open>filter\<close>, a string is ignored).
\<close>

definition assign :: "string \<Rightarrow> 'a \<Rightarrow> 'a obj \<Rightarrow> 'a obj" where
  "assign key v ob = (if key = ''__proto__'' then ob else AList.update key v ob)"

text \<open>\<open>buildFilter\<close>: the \<open>for ... in\<close> loop visits every property of \<open>query\<close> once, in
  order; \<open>filter[key] = query[key]\<close> assigns that property's value.\<close>

fun buildFilter_loop :: "('w, 'b, 'd) opts \<Rightarrow> query \<Rightarrow> filter_obj \<Rightarrow> filter_obj" where
  "buildFilter_loop opts [] filt = filt"
| "buildFilter_loop opts ((key, v) # rest) filt =
     (if key \<in> set [''page'', ''limit'', ''sort''] then buildFilter_loop opts rest filt
      else if length (filter_allowed opts) = 0 \<or> key \<in> set (filter_allowed opts)
        then buildFilter_loop opts rest (assign key v filt)
      else buildFilter_loop opts rest filt)"

definition buildFilter :: "('w, 'b, 'd) opts \<Rightarrow> query \<Rightarrow> filter_obj" where
  "buildFilter opts query =
     (if \<not> filter_enabled opts then [] else buildFilter_loop opts query [])"

text \<open>\<open>sort.replace(/^-/, '')\<close>: one leading \<open>-\<close> is removed.\<close>

fun strip_dash :: "string \<Rightarrow> string" where
  "strip_dash [] = []"
| "strip_dash (c # cs) = (if c = CHR ''-'' then cs else c # cs)"

text \<open>The \<open>TypeError\<close> of calling \<open>query.sort.replace\<close> when \<open>query.sort\<close> is an array,
  which has no such method; the message is the one Node.js gives.\<close>

definition not_a_function :: thrown where
  "not_a_function = Thrown (JStr ''query.sort.replace is not a function'')"

text \<open>\<open>applySort\<close>: \<open>if (query.sort)\<close> holds for a non-empty string and for every array.\<close>

definition applySort :: "('w, 'b, 'd) opts \<Rightarrow> query \<Rightarrow> thrown + string" where
  "applySort opts query =
     (case map_of query ''sort'' of
        None \<Rightarrow> Inr (sort_default opts)
      | Some (QArr xs) \<Rightarrow> Inl not_a_function
      | Some (QStr s) \<Rightarrow>
          if s \<noteq> [] then
            (let sortField = strip_dash s in
             if length (sort_allowed opts) > 0 \<and> sortField \<notin> set (sort_allowed opts)
             then Inr (sort_default opts)
             else Inr s)
          else Inr (sort_default opts))"

text \<open>\<open>page\<close> and \<open>limit\<close> of the list handler.\<close>

definition page_of :: "query \<Rightarrow> jsnum" where
  "page_of query = js_max (Num 1) (num_or (parseInt (toString (map_of query ''page''))) (Num 1))"

definition limit_of :: "('w, 'b, 'd) opts \<Rightarrow> query \<Rightarrow> jsnum" where
  "limit_of opts query =
     js_min (maxLimit opts)
       (num_or (parseInt (toString (map_of query ''limit''))) (defaultLimit opts))"

section \<open>The resource accessor and the handlers\<close>

text \<open>The query built by \<open>model.find(...)\<close> or \<open>model.findById(...)\<close> and the chained
  \<open>sort\<close>, \<open>populate\<close>, \<open>skip\<close> and \<open>limit\<close>; \<open>exec\<close> hands it to the accessor.\<close>

datatype query_base = Find filter_obj projection | FindById string projection

record mquery =
  q_base :: query_base
  q_sort :: "string option"
  q_populate :: "string list"
  q_skip :: "jsnum option"
  q_limit :: "jsnum option"

definition find_q :: "filter_obj \<Rightarrow> projection \<Rightarrow> mquery" where
  "find_q filt proj =
     \<lparr>q_base = Find filt proj, q_sort = None, q_populate = [], q_skip = None, q_limit = None\<rparr>"

definition findById_q :: "string \<Rightarrow> projection \<Rightarrow> mquery" where
  "findById_q ident proj =
     \<lparr>q_base = FindById ident proj, q_sort = None, q_populate = [], q_skip = None, q_limit = None\<rparr>"

definition sort_q :: "string \<Rightarrow> mquery \<Rightarrow> mquery" where
  "sort_q s q = q\<lparr>q_sort := Some s\<rparr>"

definition populate_q :: "string \<Rightarrow> mquery \<Rightarrow> mquery" where
  "populate_q field q = q\<lparr>q_populate := q_populate q @ [field]\<rparr>"

definition skip_q :: "jsnum \<Rightarrow> mquery \<Rightarrow> mquery" where
  "skip_q n q = q\<lparr>q_skip := Some n\<rparr>"

definition limit_q :: "jsnum \<Rightarrow> mquery \<Rightarrow> mquery" where
  "limit_q n q = q\<lparr>q_limit := Some n\<rparr>"

text \<open>\<open>if (opts.populate.length > 0) opts.populate.forEach(field => query = query.populate(field))\<close>\<close>

definition apply_populate :: "('w, 'b, 'd) opts \<Rightarrow> mquery \<Rightarrow> mquery" where
  "apply_populate opts q =
     (if length (populate opts) > 0 then foldl (\<lambda>q' field. populate_q field q') q (populate opts)
      else q)"

text \<open>The accessor (the Mongoose model): each operation is an effect on the world.
  \<open>exec_settles_first\<close> tells, for the world in which a read and a count are started
  together, whether the read settles before the count.\<close>

record ('w, 'b, 'd) model =
  exec_find :: "mquery \<Rightarrow> ('d list, 'w) effect"
  exec_findById :: "mquery \<Rightarrow> ('d option, 'w) effect"
  countDocuments :: "filter_obj \<Rightarrow> (jsnum, 'w) effect"
  create :: "'b \<Rightarrow> ('d, 'w) effect"
  findByIdAndUpdate :: "string \<Rightarrow> 'b \<Rightarrow> ('d option, 'w) effect"
  findByIdAndDelete :: "string \<Rightarrow> ('d option, 'w) effect"
  exec_settles_first :: "'w \<Rightarrow> bool"

text \<open>What a handler invokes, in order, with the outcome of each invocation.\<close>

datatype hook_name =
    BeforeCreate | AfterCreate | BeforeUpdate | AfterUpdate | BeforeDelete | AfterDelete

datatype 'b operation =
    Exec mquery
  | CountDocuments filter_obj
  | Create 'b
  | FindByIdAndUpdate string 'b
  | FindByIdAndDelete string
  | ValidateBody
  | Hook hook_name

datatype outcome = Returned | Threw thrown

record ('w, 'b) state =
  world :: 'w
  trace :: "('b operation \<times> outcome) list"

text \<open>A step of a handler body: it runs on the state and returns a value or throws.\<close>

type_synonym ('a, 'w, 'b) action = "('w, 'b) state \<Rightarrow> (thrown + 'a) \<times> ('w, 'b) state"

definition return :: "'a \<Rightarrow> ('a, 'w, 'b) action" where
  "return x st = (Inr x, st)"

definition bind :: "('a, 'w, 'b) action \<Rightarrow> ('a \<Rightarrow> ('c, 'w, 'b) action) \<Rightarrow> ('c, 'w, 'b) action" where
  "bind m f st = (case m st of
       (Inl e, st') \<Rightarrow> (Inl e, st')
     | (Inr x, st') \<Rightarrow> f x st')"

text \<open>A computation of the handler itself, which returns or throws and invokes nothing.\<close>

definition evaluate :: "thrown + 'a \<Rightarrow> ('a, 'w, 'b) action" where
  "evaluate r st = (r, st)"

fun outcome_of :: "thrown + 'a \<Rightarrow> outcome" where
  "outcome_of (Inl e) = Threw e"
| "outcome_of (Inr x) = Returned"

text \<open>\<open>await f(...)\<close>: the call runs on the world and is recorded.\<close>

definition invoke :: "'b operation \<Rightarrow> ('a, 'w) effect \<Rightarrow> ('a, 'w, 'b) action" where
  "invoke opn f st = (case f (world st) of
       (r, w') \<Rightarrow> (r, \<lparr>world = w', trace = trace st @ [(opn, outcome_of r)]\<rparr>))"

text \<open>\<open>if (opts.hooks.h) await opts.hooks.h(req, x)\<close>\<close>

fun run_hook :: "hook_name \<Rightarrow> (unit, 'w) effect option \<Rightarrow> (unit, 'w, 'b) action" where
  "run_hook name None = return ()"
| "run_hook name (Some h) = invoke (Hook name) h"

text \<open>\<open>await Promise.all([a, b])\<close>: both operations are started, in this order, whatever
  the other one does (each returns a promise, and a failure is a rejection of that
  promise); the result is the pair of their values, or the rejection of the one
  that rejects. When both reject, the rejection that settles first is the result:
  \<open>a_first\<close> tells whether that is the one of \<open>a\<close>.\<close>

definition promise_all ::
  "('w \<Rightarrow> bool) \<Rightarrow> ('a, 'w, 'b) action \<Rightarrow> ('c, 'w, 'b) action \<Rightarrow> ('a \<times> 'c, 'w, 'b) action" where
  "promise_all a_first a b st = (case a st of
       (ra, st1) \<Rightarrow> (case b st1 of
         (rb, st2) \<Rightarrow> (case ra of
             Inl ea \<Rightarrow> (case rb of
                Inl eb \<Rightarrow> (Inl (if a_first (world st) then ea else eb), st2)
              | Inr y \<Rightarrow> (Inl ea, st2))
           | Inr x \<Rightarrow> (case rb of
                Inl eb \<Rightarrow> (Inl eb, st2)
              | Inr y \<Rightarrow> (Inr (x, y), st2)))))"

subsection \<open>Responses\<close>

record pagination =
  total :: jsnum
  page :: jsnum
  limit :: jsnum
  totalPages :: jsnum
  hasNextPage :: bool

text \<open>The JSON bodies: \<open>{error, message}\<close>, \<open>{data}\<close> or \<open>{data, pagination}\<close>, a bare
  document, and \<open>{success, message, id}\<close>.\<close>

datatype 'd json =
    ErrorBody bool jsval
  | ListBody "'d list" "pagination option"
  | DocBody 'd
  | DeleteBody bool string string

record 'd response =
  status :: nat
  payload :: "'d json"

text \<open>\<open>res.status(n).json(x)\<close>, and \<open>res.json(x)\<close> with the default status 200.\<close>

definition status_json :: "nat \<Rightarrow> 'd json \<Rightarrow> 'd response" where
  "status_json n x = \<lparr>status = n, payload = x\<rparr>"

definition json :: "'d json \<Rightarrow> 'd response" where
  "json x = status_json 200 x"

definition errorResponse :: "jsval \<Rightarrow> nat \<Rightarrow> 'd response" where
  "errorResponse msg st = status_json st (ErrorBody True msg)"

text \<open>
  \<open>catch (error) { errorResponse(res, error.message || fallback, status) }\<close>: for a thrown
  \<open>null\<close> or \<open>undefined\<close> reading \<open>error.message\<close> throws inside the catch block, so
  the handler sends no response (\<open>None\<close>) and its promise rejects.
\<close>

fun catch_response :: "thrown \<Rightarrow> string \<Rightarrow> nat \<Rightarrow> 'd response option" where
  "catch_response ThrownNullish fallback st = None"
| "catch_response (Thrown msg) fallback st = Some (errorResponse (or_else msg (JStr fallback)) st)"

text \<open>\<open>try { body } catch (error) { ... }\<close>, started on the world \<open>w\<close> with nothing
  invoked yet: the response the handler sends, if any, and the final state.\<close>

definition try_catch ::
  "('d response, 'w, 'b) action \<Rightarrow> string \<Rightarrow> nat \<Rightarrow> 'w
     \<Rightarrow> 'd response option \<times> ('w, 'b) state" where
  "try_catch handler_body fallback st w =
     (case handler_body \<lparr>world = w, trace = []\<rparr> of
        (Inl error, s) \<Rightarrow> (catch_response error fallback st, s)
      | (Inr res, s) \<Rightarrow> (Some res, s))"

subsection \<open>Route 1: list\<close>

text \<open>The query of the list handler before the window is applied.\<close>

definition list_query :: "('w, 'b, 'd) opts \<Rightarrow> filter_obj \<Rightarrow> string \<Rightarrow> mquery" where
  "list_query opts filt srt = apply_populate opts (sort_q srt (find_q filt (projection opts)))"

definition list_handler ::
  "('w, 'b, 'd) opts \<Rightarrow> ('w, 'b, 'd) model \<Rightarrow> 'b request \<Rightarrow> 'w
     \<Rightarrow> 'd response option \<times> ('w, 'b) state" where
  "list_handler opts model req =
     (let page = page_of (req_query req);
          limit = limit_of opts (req_query req);
          filt = buildFilter opts (req_query req)
      in try_catch
           (bind (evaluate (applySort opts (req_query req)))
              (\<lambda>srt.
                 let skip = js_mul (js_sub page (Num 1)) limit;
                     query = list_query opts filt srt;
                     read = (if pagination_enabled opts then limit_q limit (skip_q skip query)
                             else query)
                 in bind (promise_all (exec_settles_first model)
                            (invoke (Exec read) (exec_find model read))
                            (invoke (CountDocuments filt) (countDocuments model filt)))
                      (\<lambda>(data, total).
                         if pagination_enabled opts then
                           (let totalPages = js_ceil_div total limit in
                            return (json (ListBody data
                              (Some \<lparr>total = total, page = page, limit = limit,
                                     totalPages = totalPages,
                                     hasNextPage = num_less page totalPages\<rparr>))))
                         else return (json (ListBody data None)))))
           ''Failed to fetch documents'' 500)"

subsection \<open>Route 2: get one\<close>

definition getOne_handler ::
  "('w, 'b, 'd) opts \<Rightarrow> ('w, 'b, 'd) model \<Rightarrow> 'b request \<Rightarrow> 'w
     \<Rightarrow> 'd response option \<times> ('w, 'b) state" where
  "getOne_handler opts model req =
     (let ident = req_params_id req in
      try_catch
        (if ident = [] then return (errorResponse (JStr ''ID is required'') 400)
         else
           (let query = apply_populate opts (findById_q ident (projection opts)) in
            bind (invoke (Exec query) (exec_findById model query))
              (\<lambda>doc. case doc of
                   None \<Rightarrow> return (errorResponse (JStr ''Document not found'') 404)
                 | Some d \<Rightarrow> return (json (DocBody d)))))
        ''Failed to fetch document'' 500)"

subsection \<open>Route 3: create\<close>

definition create_handler ::
  "('w, 'b, 'd) opts \<Rightarrow> ('w, 'b, 'd) model \<Rightarrow> 'b request \<Rightarrow> 'w
     \<Rightarrow> 'd response option \<times> ('w, 'b) state" where
  "create_handler opts model req =
     (let data = req_body req;
          persist =
            bind (run_hook BeforeCreate (map_option (\<lambda>h. h req data) (beforeCreate (hooks opts))))
              (\<lambda>_. bind (invoke (Create data) (create model data))
              (\<lambda>doc. bind (run_hook AfterCreate (map_option (\<lambda>h. h req doc) (afterCreate (hooks opts))))
              (\<lambda>_. return (status_json 201 (DocBody doc)))))
      in try_catch
           (case validateBody opts of
              None \<Rightarrow> persist
            | Some validate \<Rightarrow>
                bind (invoke ValidateBody (validate data))
                  (\<lambda>isValid.
                     if \<not> truthy isValid then return (errorResponse (JStr ''Validation failed'') 400)
                     else persist))
           ''Failed to create document'' 400)"

subsection \<open>Route 4: update\<close>


subsection \<open>Route 5: delete\<close>


section \<open>Concrete inputs for the examples\<close>

text \<open>\<open>autoCRUD(app, model, baseRoute)\<close> with the default \<open>options = {}\<close>.\<close>

definition default_options :: "('w, 'b, 'd) options" where
  "default_options =
     \<lparr>o_pagination = None, o_sort = None, o_filter = None, o_projection = None,
      o_populate = None, o_validateBody = None, o_hooks = None\<rparr>"

text \<open>An accessor over an in-memory store: the world is the list of stored documents,
  documents and bodies are strings, and a document is its own id.\<close>

definition store_model :: "(string list, string, string) model" where
  "store_model =
     \<lparr>exec_find = (\<lambda>q w. (Inr w, w)),
      exec_findById = (\<lambda>q w. (Inr None, w)),
      countDocuments = (\<lambda>f w. (Inr (Num (int (length w))), w)),
      create = (\<lambda>b w. (Inr b, w @ [b])),
      findByIdAndUpdate = (\<lambda>i b w.
         if i \<in> set w then (Inr (Some b), map (\<lambda>x. if x = i then b else x) w) else (Inr None, w)),
      findByIdAndDelete = (\<lambda>i w.
         if i \<in> set w then (Inr (Some i), removeAll i w) else (Inr None, w)),
      exec_settles_first = (\<lambda>w. True)\<rparr>"

definition example_request :: "query \<Rightarrow> string \<Rightarrow> string \<Rightarrow> string request" where
  "example_request q i b = \<lparr>req_query = q, req_params_id = i, req_body = b\<rparr>"

text \<open>A validation predicate that rejects every body, a hook that always throws
  \<open>new Error(msg)\<close>, and a hook that always throws \<open>null\<close>.\<close>

definition reject_all :: "string \<Rightarrow> (jsval, string list) effect" where
  "reject_all b w = (Inr (JBool False), w)"



text \<open>Options that switch pagination off, an accessor whose count always rejects, an
  accessor whose read and count both reject (the count first), and an accessor that
  reports a fixed count.\<close>

definition unpaginated_options :: "(string list, string, string) options" where
  "unpaginated_options = default_options
     \<lparr>o_pagination := Some \<lparr>po_enabled = JBool False, po_defaultLimit = None, po_maxLimit = None\<rparr>\<rparr>"

definition failing_count_model :: "(string list, string, string) model" where
  "failing_count_model = store_model
     \<lparr>countDocuments := (\<lambda>f w. (Inl (Thrown (JStr ''count failed'')), w))\<rparr>"

definition failing_model :: "(string list, string, string) model" where
  "failing_model = store_model
     \<lparr>exec_find := (\<lambda>q w. (Inl (Thrown (JStr ''read failed'')), w)),
      countDocuments := (\<lambda>f w. (Inl (Thrown (JStr ''count failed'')), w)),
      exec_settles_first := (\<lambda>w. False)\<rparr>"

definition fixed_count_model :: "int \<Rightarrow> (string list, string, string) model" where
  "fixed_count_model n = store_model \<lparr>countDocuments := (\<lambda>f w. (Inr (Num n), w))\<rparr>"

definition rejecting_options :: "(string list, string, string) options" where
  "rejecting_options = default_options \<lparr>o_validateBody := Some reject_all\<rparr>"


section \<open>Properties\<close>

subsection \<open>Auxiliary facts\<close>

lemmas parseInt_eval = parseInt_def isWhiteSpace_def radixDigit_def digitValue_def

lemmas run_defs =
  try_catch_def bind_def return_def evaluate_def invoke_def errorResponse_def status_json_def
  json_def

lemma round_int_exact: "\<bar>n\<bar> \<le> 2 ^ 53 \<Longrightarrow> round_int n = Num n"
  by (simp add: round_int_def)

lemma parseInt_undefined: "parseInt ''undefined'' = NaN"
  by (simp add: parseInt_eval)

lemma update_fresh: "k \<notin> fst ` set al \<Longrightarrow> AList.update k v al = al @ [(k, v)]"
  by (induction al) auto

text \<open>On a query object (distinct keys) the loop appends the admitted properties, in order,
  to the filter built so far.\<close>

lemma buildFilter_loop_filter:
  "distinct (map fst query) \<Longrightarrow> fst ` set acc \<inter> fst ` set query = {} \<Longrightarrow>
   buildFilter_loop opts query acc =
     acc @ filter (\<lambda>(k, v). k \<notin> {''page'', ''limit'', ''sort'', ''__proto__''} \<and>
                        (filter_allowed opts = [] \<or> k \<in> set (filter_allowed opts))) query"
proof (induction query arbitrary: acc)
  case Nil
  then show ?case by simp
next
  case (Cons p query)
  obtain k v where p: "p = (k, v)" by (cases p)
  from Cons.prems p have fresh: "k \<notin> fst ` set acc" by auto
  from Cons.prems p have d: "distinct (map fst query)" and nk: "k \<notin> fst ` set query" by auto
  from Cons.prems p have disj: "fst ` set acc \<inter> fst ` set query = {}" by auto
  have disj': "fst ` set (acc @ [(k, v)]) \<inter> fst ` set query = {}" using disj nk by auto
  show ?case using Cons.IH[OF d disj] Cons.IH[OF d disj'] p fresh
    by (simp add: update_fresh assign_def)
qed

lemma buildFilter_loop_keys:
  "fst ` set (buildFilter_loop opts query acc) \<subseteq>
     fst ` set acc \<union> {k \<in> fst ` set query. k \<noteq> ''__proto__'' \<and>
        (filter_allowed opts = [] \<or> k \<in> set (filter_allowed opts))}"
proof (induction query arbitrary: acc)
  case Nil
  then show ?case by simp
next
  case (Cons p query)
  obtain k v where p: "p = (k, v)" by (cases p)
  show ?case using Cons.IH[of acc] Cons.IH[of "AList.update k v acc"] p
    by (auto simp: AList.dom_update assign_def)
qed

lemma ceil_div_bounds:
  fixes a b :: int
  assumes "0 < b"
  shows "(- ((- a) div b) - 1) * b < a \<and> a \<le> - ((- a) div b) * b"
proof -
  let ?c = "\<lceil>real_of_int a / real_of_int b\<rceil>"
  have c: "?c = - ((- a) div b)" by (rule ceiling_divide_eq_div)
  have b: "0 < real_of_int b" using assms by simp
  have "real_of_int ?c - 1 < real_of_int a / real_of_int b" by linarith
  then have "(real_of_int ?c - 1) * real_of_int b < real_of_int a"
    using b by (simp only: pos_less_divide_eq)
  then have "real_of_int ((?c - 1) * b) < real_of_int a" by simp
  then have lo: "(?c - 1) * b < a" by (simp only: of_int_less_iff)
  have "real_of_int a / real_of_int b \<le> real_of_int ?c" by (rule le_of_int_ceiling)
  then have "real_of_int a \<le> real_of_int ?c * real_of_int b"
    using b by (simp only: pos_divide_le_eq)
  then have "real_of_int a \<le> real_of_int (?c * b)" by simp
  then have hi: "a \<le> ?c * b" by (simp only: of_int_le_iff)
  show ?thesis using lo hi unfolding c by simp
qed

lemma ceil_div_unique:
  fixes R S c :: int
  assumes "0 < S" "(c - 1) * S < R" "R \<le> c * S"
  shows "- ((- R) div S) = c"
proof -
  have S: "0 < real_of_int S" using assms by simp
  have "real_of_int ((c - 1) * S) < real_of_int R" using assms(2) by (simp only: of_int_less_iff)
  then have "(real_of_int c - 1) * real_of_int S < real_of_int R" by simp
  then have lo: "real_of_int c - 1 < real_of_int R / real_of_int S"
    using S by (simp only: pos_less_divide_eq)
  have "real_of_int R \<le> real_of_int (c * S)" using assms(3) by (simp only: of_int_le_iff)
  then have "real_of_int R \<le> real_of_int c * real_of_int S" by simp
  then have hi: "real_of_int R / real_of_int S \<le> real_of_int c"
    using S by (simp only: pos_divide_le_eq)
  have "\<lceil>real_of_int R / real_of_int S\<rceil> = c"
    using lo hi by (simp add: ceiling_eq_iff)
  then show ?thesis by (simp only: ceiling_divide_eq_div)
qed

lemma round_ceil_core:
  fixes a b S :: int
  assumes a: "0 < a" and b: "0 < b" and S: "0 < S" and bS: "b < 2 * S"
  shows "- ((- (if 2 * ((a * S) mod b) > b \<or> (2 * ((a * S) mod b) = b \<and> odd ((a * S) div b))
                then (a * S) div b + 1 else (a * S) div b)) div S) = - ((- a) div b)"
proof -
  define f where "f = (a * S) div b"
  define rem where "rem = (a * S) mod b"
  define R where "R = (if 2 * rem > b \<or> (2 * rem = b \<and> odd f) then f + 1 else f)"
  define c where "c = - ((- a) div b)"
  have c1: "(c - 1) * b < a" and c2: "a \<le> c * b"
    using ceil_div_bounds [OF b, of a] by (simp_all add: c_def)
  have N: "a * S = f * b + rem" and r0: "0 \<le> rem" and r1: "rem < b"
    using b by (simp_all add: f_def rem_def)
  have fle: "f \<le> R" and Rle: "R \<le> f + 1" by (simp_all add: R_def)
  \<comment> \<open>upper bound\<close>
  have "a * S \<le> (c * b) * S" using c2 S by (simp add: mult_right_mono)
  then have NU: "f * b + rem \<le> (c * S) * b" using N by (simp add: algebra_simps)
  have up: "R \<le> c * S"
  proof (cases "f < c * S")
    case True
    then show ?thesis using Rle by linarith
  next
    case False
    have "f * b \<le> (c * S) * b" using NU r0 by linarith
    then have "f \<le> c * S" using b by (simp add: mult_le_cancel_right)
    with False have feq: "f = c * S" by linarith
    have "(c * S) * b + rem \<le> (c * S) * b" using NU feq by simp
    with r0 have "rem = 0" by linarith
    then have "R = f" using b by (simp add: R_def)
    then show ?thesis using feq by simp
  qed
  \<comment> \<open>lower bound\<close>
  have "((c - 1) * b) * S < a * S" using c1 S by (simp add: mult_strict_right_mono)
  then have NL: "((c - 1) * S) * b < f * b + rem" using N by (simp add: algebra_simps)
  have lo: "(c - 1) * S < R"
  proof (cases "(c - 1) * S < f")
    case True
    then show ?thesis using fle by linarith
  next
    case False
    have "((c - 1) * S) * b < (f + 1) * b" using NL r1 by (simp add: algebra_simps)
    then have "(c - 1) * S < f + 1" using b by (simp add: mult_less_cancel_right)
    with False have feq: "f = (c - 1) * S" by linarith
    have "1 \<le> a - (c - 1) * b" using c1 by linarith
    then have "1 * S \<le> (a - (c - 1) * b) * S" using S by (intro mult_right_mono) simp_all
    then have "S \<le> a * S - ((c - 1) * S) * b" by (simp add: algebra_simps)
    moreover have "a * S - ((c - 1) * S) * b = rem" using N feq by simp
    ultimately have "S \<le> rem" by simp
    then have "b < 2 * rem" using bS by linarith
    then have "R = f + 1" by (simp add: R_def)
    then show ?thesis using feq by simp
  qed
  have "- ((- R) div S) = c" using ceil_div_unique [OF S lo up] .
  then show ?thesis unfolding R_def f_def rem_def c_def .
qed

lemma bitlen_le_53: "0 < a \<Longrightarrow> a < 2 ^ 53 \<Longrightarrow> 1 \<le> bitlen a \<and> bitlen a \<le> 53"
  using bitlen_le_iff_power [of a 53] bitlen_eq_zero_iff [of a] bitlen_nonneg [of a] by auto

lemma round_frac_exp:
  assumes a: "0 < a" "a < 2 ^ 53" and b: "0 < b" "b < 2 ^ 53"
  shows "\<exists>e. - 53 \<le> e \<and> e \<le> 52 \<and> b * 2 ^ nat e \<le> a * 2 ^ nat (- e) \<and>
     round_frac a b =
       (if 2 * ((a * 2 ^ nat (52 - e)) mod b) > b \<or>
           (2 * ((a * 2 ^ nat (52 - e)) mod b) = b \<and> odd ((a * 2 ^ nat (52 - e)) div b))
        then (a * 2 ^ nat (52 - e)) div b + 1 else (a * 2 ^ nat (52 - e)) div b, e - 52)"
proof -
  define e0 where "e0 = bitlen a - bitlen b"
  define e where "e = (if b * 2 ^ nat e0 \<le> a * 2 ^ nat (- e0) then e0 else e0 - 1)"
  have la: "1 \<le> bitlen a" "bitlen a \<le> 53" and lb: "1 \<le> bitlen b" "bitlen b \<le> 53"
    using bitlen_le_53 a b by auto
  have e0: "- 52 \<le> e0" "e0 \<le> 52" using la lb by (auto simp: e0_def)
  have e: "- 53 \<le> e" "e \<le> 52" using e0 by (auto simp: e_def)
  have ba: "2 ^ nat (bitlen a - 1) \<le> a" and bb: "b < 2 ^ nat (bitlen b)"
    using bitlen_bounds [of a] bitlen_bounds [of b] a b by auto
  have lower: "b * 2 ^ nat e \<le> a * 2 ^ nat (- e)"
  proof (cases "b * 2 ^ nat e0 \<le> a * 2 ^ nat (- e0)")
    case True
    then show ?thesis by (simp add: e_def)
  next
    case False
    then have ee: "e = e0 - 1" by (simp add: e_def)
    show ?thesis
    proof (cases "1 \<le> e0")
      case True
      then have n: "nat (bitlen b) + nat (e0 - 1) = nat (bitlen a - 1)"
        using la lb by (simp add: e0_def)
      have "b * 2 ^ nat (e0 - 1) \<le> 2 ^ nat (bitlen b) * 2 ^ nat (e0 - 1)"
        using bb by (intro mult_right_mono) simp_all
      also have "\<dots> = 2 ^ nat (bitlen a - 1)"
        by (simp only: power_add [symmetric] n)
      also have "\<dots> \<le> a" by (rule ba)
      finally have "b * 2 ^ nat (e0 - 1) \<le> a" .
      moreover have "nat (- (e0 - 1)) = 0" using True by simp
      ultimately show ?thesis by (simp add: ee)
    next
      case False
      then have n: "nat (bitlen a - 1) + nat (1 - e0) = nat (bitlen b)"
        using la lb by (simp add: e0_def)
      have "b \<le> 2 ^ nat (bitlen b)" using bb by simp
      also have "\<dots> = 2 ^ nat (bitlen a - 1) * 2 ^ nat (1 - e0)"
        by (simp only: power_add [symmetric] n)
      also have "\<dots> \<le> a * 2 ^ nat (1 - e0)"
        using ba by (intro mult_right_mono) simp_all
      finally have "b \<le> a * 2 ^ nat (1 - e0)" .
      moreover have "nat (e0 - 1) = 0" "- (e0 - 1) = 1 - e0" using False by simp_all
      ultimately show ?thesis by (simp add: ee)
    qed
  qed
  have k: "max e (- 1022) - 52 = e - 52" "nat (- (e - 52)) = nat (52 - e)" "nat (e - 52) = 0"
    using e by auto
  have "round_frac a b =
       (if 2 * ((a * 2 ^ nat (52 - e)) mod b) > b \<or>
           (2 * ((a * 2 ^ nat (52 - e)) mod b) = b \<and> odd ((a * 2 ^ nat (52 - e)) div b))
        then (a * 2 ^ nat (52 - e)) div b + 1 else (a * 2 ^ nat (52 - e)) div b, e - 52)"
    unfolding round_frac_def Let_def e0_def [symmetric] e_def [symmetric] k by simp
  then show ?thesis using e lower by blast
qed

lemma ceil_quot_exact_pos:
  assumes a: "0 < a" "a < 2 ^ 53" and b: "0 < b" "b < 2 ^ 53"
  shows "ceil_quot a b = - ((- a) div b)"
proof -
  from round_frac_exp [OF a b] obtain e where e: "- 53 \<le> e" "e \<le> 52"
    and lower: "b * 2 ^ nat e \<le> a * 2 ^ nat (- e)"
    and rf: "round_frac a b =
       (if 2 * ((a * 2 ^ nat (52 - e)) mod b) > b \<or>
           (2 * ((a * 2 ^ nat (52 - e)) mod b) = b \<and> odd ((a * 2 ^ nat (52 - e)) div b))
        then (a * 2 ^ nat (52 - e)) div b + 1 else (a * 2 ^ nat (52 - e)) div b, e - 52)"
    by blast
  define S :: int where "S = 2 ^ nat (52 - e)"
  have S: "0 < S" by (simp add: S_def)
  have bS: "b < 2 * S"
  proof -
    have "b * 2 ^ nat e \<le> a * 2 ^ nat (- e)" by (rule lower)
    also have "\<dots> < 2 ^ 53 * 2 ^ nat (- e)" using a by (intro mult_strict_right_mono) simp_all
    finally have 1: "b * 2 ^ nat e < 2 ^ (53 + nat (- e))" by (simp add: power_add)
    show ?thesis
    proof (cases "0 \<le> e")
      case True
      then have n: "53 = nat e + (1 + nat (52 - e))" using e by simp
      have "b * 2 ^ nat e < 2 ^ 53" using 1 True by simp
      also have "\<dots> = (2 * S) * 2 ^ nat e"
        unfolding S_def by (subst n) (simp only: power_add power_one_right mult_ac)
      finally show ?thesis by simp
    next
      case False
      then have n: "53 + nat (- e) = 1 + nat (52 - e)" using e by simp
      have "b < 2 ^ (53 + nat (- e))" using 1 False by simp
      also have "\<dots> = 2 * S" unfolding S_def by (simp only: n power_add power_one_right)
      finally show ?thesis .
    qed
  qed
  define R where "R = (if 2 * ((a * S) mod b) > b \<or> (2 * ((a * S) mod b) = b \<and> odd ((a * S) div b))
                then (a * S) div b + 1 else (a * S) div b)"
  have core: "- ((- R) div S) = - ((- a) div b)"
    unfolding R_def using round_ceil_core [OF a(1) b(1) S bS] .
  have rf': "round_frac a b = (R, e - 52)"
    unfolding R_def S_def by (rule rf)
  have abs: "\<bar>a\<bar> = a" "\<bar>b\<bar> = b" "a \<noteq> 0" "\<not> a < 0" "\<not> b < 0"
    using a b by simp_all
  show ?thesis
  proof (cases "e = 52")
    case True
    then have "S = 1" by (simp add: S_def)
    with core have "R = - ((- a) div b)" by simp
    then show ?thesis
      using True by (simp add: ceil_quot_def abs rf')
  next
    case False
    then have k: "e < 52" "nat (- (e - 52)) = nat (52 - e)" using e by simp_all
    show ?thesis
      using core k(1) by (simp add: ceil_quot_def abs rf' k(2) S_def)
  qed
qed

lemma ceil_quot_exact:
  assumes "0 \<le> t" "t < 2 ^ 53" "0 < l" "l < 2 ^ 53"
  shows "ceil_quot t l = \<lceil>real_of_int t / real_of_int l\<rceil>"
proof (cases "t = 0")
  case True
  then show ?thesis by (simp add: ceil_quot_def)
next
  case False
  then have "0 < t" using assms by simp
  then show ?thesis
    using ceil_quot_exact_pos [of t l] assms by (simp only: ceiling_divide_eq_div)
qed

lemma skip_exact:
  "\<bar>p - 1\<bar> \<le> 2 ^ 53 \<Longrightarrow> \<bar>(p - 1) * l\<bar> \<le> 2 ^ 53 \<Longrightarrow>
   js_mul (js_sub (Num p) (Num 1)) (Num l) = Num ((p - 1) * l)"
  by (simp add: js_mul_def round_int_exact)

lemma ceil_least:
  assumes "0 < l"
  shows "(\<lceil>real_of_int t / real_of_int l\<rceil> - 1) * l < t \<and>
         t \<le> \<lceil>real_of_int t / real_of_int l\<rceil> * l"
  using ceil_div_bounds [OF assms, of t] by (simp only: ceiling_divide_eq_div)

lemma populate_window:
  "q_skip (foldl (\<lambda>q' field. populate_q field q') q fs) = q_skip q \<and>
   q_limit (foldl (\<lambda>q' field. populate_q field q') q fs) = q_limit q"
  by (induction fs arbitrary: q) (auto simp: populate_q_def)

lemma list_query_window:
  "q_skip (list_query opts filt srt) = None \<and> q_limit (list_query opts filt srt) = None"
  by (simp add: list_query_def apply_populate_def populate_window sort_q_def find_q_def)

lemma catch_payload:
  "catch_response e f s = Some r \<Longrightarrow> \<exists>m. payload r = ErrorBody True m"
  by (cases e) (auto simp: errorResponse_def status_json_def)

lemma list_handler_throw:
  assumes "applySort opts (req_query req) = Inl e"
  shows "list_handler opts model req w =
     (catch_response e ''Failed to fetch documents'' 500, \<lparr>world = w, trace = []\<rparr>)"
  by (simp add: list_handler_def Let_def try_catch_def bind_def evaluate_def assms)

text \<open>The run of the list handler once the sort is resolved, from what the read and the
  count do.\<close>

lemma list_handler_run:
  assumes "applySort opts (req_query req) = Inr srt"
    and "exec_find model
           (if pagination_enabled opts
            then limit_q (limit_of opts (req_query req))
                   (skip_q (js_mul (js_sub (page_of (req_query req)) (Num 1))
                              (limit_of opts (req_query req)))
                      (list_query opts (buildFilter opts (req_query req)) srt))
            else list_query opts (buildFilter opts (req_query req)) srt) w = (r1, w1)"
    and "countDocuments model (buildFilter opts (req_query req)) w1 = (r2, w2)"
  shows "list_handler opts model req w =
     (case r1 of
        Inl e1 \<Rightarrow> (case r2 of
            Inl e2 \<Rightarrow> catch_response (if exec_settles_first model w then e1 else e2)
                        ''Failed to fetch documents'' 500
          | Inr tot \<Rightarrow> catch_response e1 ''Failed to fetch documents'' 500)
      | Inr data \<Rightarrow> (case r2 of
            Inl e2 \<Rightarrow> catch_response e2 ''Failed to fetch documents'' 500
          | Inr tot \<Rightarrow>
              Some \<lparr>status = 200,
                     payload = ListBody data
                       (if pagination_enabled opts then
                          Some \<lparr>total = tot, page = page_of (req_query req),
                                 limit = limit_of opts (req_query req),
                                 totalPages = js_ceil_div tot (limit_of opts (req_query req)),
                                 hasNextPage = num_less (page_of (req_query req))
                                   (js_ceil_div tot (limit_of opts (req_query req)))\<rparr>
                        else None)\<rparr>),
      \<lparr>world = w2,
        trace = [(Exec (if pagination_enabled opts
                        then limit_q (limit_of opts (req_query req))
                               (skip_q (js_mul (js_sub (page_of (req_query req)) (Num 1))
                                          (limit_of opts (req_query req)))
                                  (list_query opts (buildFilter opts (req_query req)) srt))
                        else list_query opts (buildFilter opts (req_query req)) srt),
                  outcome_of r1),
                 (CountDocuments (buildFilter opts (req_query req)), outcome_of r2)]\<rparr>)"
proof (cases "pagination_enabled opts")
  case True
  with assms(2) have ex: "exec_find model
      (limit_q (limit_of opts (req_query req))
         (skip_q (js_mul (js_sub (page_of (req_query req)) (Num 1)) (limit_of opts (req_query req)))
            (list_query opts (buildFilter opts (req_query req)) srt))) w = (r1, w1)"
    by simp
  show ?thesis
    by (cases r1; cases r2)
       (simp_all add: list_handler_def Let_def run_defs promise_all_def assms(1,3) ex True)
next
  case False
  with assms(2) have ex: "exec_find model
      (list_query opts (buildFilter opts (req_query req)) srt) w = (r1, w1)"
    by simp
  show ?thesis
    by (cases r1; cases r2)
       (simp_all add: list_handler_def Let_def run_defs promise_all_def assms(1,3) ex False)
qed

lemma round_int_skip_example: "round_int 9007199254741149 = Num 9007199254741148"
  by code_simp

lemma ceil_quot_examples: "ceil_quot 124 10 = 13" "ceil_quot 124 99 = 2"
  by code_simp+

lemmas list_eval =
  list_handler_def list_query_def apply_populate_def sort_q_def find_q_def skip_q_def
  limit_q_def page_of_def limit_of_def buildFilter_def applySort_def promise_all_def run_defs
  Let_def normalize_options_def default_options_def store_model_def example_request_def
  not_false_def parseInt_eval round_int_exact num_or_def js_max_def js_min_def js_mul_def
  js_ceil_div_def or_else_def

subsection \<open>Query intent\<close>

text \<open>
  C1, as amended. The resolved limit is \<open>min(maxLimit, requested)\<close> when \<open>limit\<close> parses as
  a non-zero number; a negative request is not floored and passes through whenever it does
  not exceed \<open>maxLimit\<close>. When \<open>limit\<close> is absent, non-numeric or parses as zero, the
  resolved limit is \<open>min(maxLimit, defaultLimit)\<close>, which is the configured \<open>defaultLimit\<close>
  whenever \<open>defaultLimit \<le> maxLimit\<close>. The result never exceeds \<open>maxLimit\<close>.
\<close>

theorem limit_resolution:
  "(\<forall>n. parseInt (toString (map_of query ''limit'')) = Num n \<longrightarrow> n \<noteq> 0 \<longrightarrow>
        limit_of opts query = js_min (maxLimit opts) (Num n))
   \<and> (\<forall>v. parseInt (toString (map_of query ''limit'')) = v \<longrightarrow> truthy_num v \<longrightarrow>
        limit_of opts query = js_min (maxLimit opts) v)
   \<and> (\<forall>n. parseInt (toString (map_of query ''limit'')) = Num n \<longrightarrow> n < 0 \<longrightarrow>
        num_le (Num n) (maxLimit opts) \<longrightarrow> limit_of opts query = Num n)
   \<and> (parseInt (toString (map_of query ''limit'')) = Num 0 \<longrightarrow>
        limit_of opts query = js_min (maxLimit opts) (defaultLimit opts))
   \<and> (parseInt (toString (map_of query ''limit'')) = NaN \<longrightarrow>
        limit_of opts query = js_min (maxLimit opts) (defaultLimit opts))
   \<and> (map_of query ''limit'' = None \<longrightarrow>
        limit_of opts query = js_min (maxLimit opts) (defaultLimit opts))
   \<and> (num_le (defaultLimit opts) (maxLimit opts) \<longrightarrow>
        js_min (maxLimit opts) (defaultLimit opts) = defaultLimit opts)
   \<and> (maxLimit opts \<noteq> NaN \<longrightarrow> defaultLimit opts \<noteq> NaN \<longrightarrow>
        num_le (limit_of opts query) (maxLimit opts))"
proof -
  have le: "num_le (js_min a b) a" if "a \<noteq> NaN" "b \<noteq> NaN" for a b
    using that by (cases a; cases b) (auto simp: js_min_def num_le_def)
  have nn: "num_or v d \<noteq> NaN" if "d \<noteq> NaN" for v d
    using that by (cases v) (auto simp: num_or_def)
  have pass: "js_min m (Num n) = Num n" if "num_le (Num n) m" for m n
    using that by (cases m) (auto simp: js_min_def num_le_def)
  have dflt: "js_min m d = d" if "num_le d m" for m d
    using that by (cases m; cases d) (auto simp: js_min_def num_le_def)
  show ?thesis
    using le [OF _ nn] pass dflt
    by (auto simp: limit_of_def num_or_def parseInt_undefined)
qed

theorem limit_resolution_witness:
  "limit_of (normalize_options (default_options :: (unit, unit, unit) options)) [(''limit'', QStr ''250'')] = Num 100
   \<and> limit_of (normalize_options (default_options :: (unit, unit, unit) options)) [(''limit'', QStr ''7'')] = Num 7
   \<and> limit_of (normalize_options (default_options :: (unit, unit, unit) options)) [(''limit'', QStr ''-5'')] = Num (- 5)
   \<and> limit_of (normalize_options (default_options :: (unit, unit, unit) options)) [(''limit'', QStr ''0'')] = Num 20
   \<and> limit_of (normalize_options (default_options :: (unit, unit, unit) options)) [(''limit'', QStr ''abc'')] = Num 20
   \<and> limit_of (normalize_options (default_options :: (unit, unit, unit) options)) [(''page'', QStr ''2'')] = Num 20"
proof -
  let ?opts = "normalize_options (default_options :: (unit, unit, unit) options)"
  have m: "maxLimit ?opts = Num 100" and d: "defaultLimit ?opts = Num 20"
    by (simp_all add: normalize_options_def default_options_def)
  have p1: "parseInt (toString (map_of [(''limit'', QStr ''250'')] ''limit'')) = Num 250"
    by (simp add: parseInt_eval round_int_exact)
  have p2: "parseInt (toString (map_of [(''limit'', QStr ''7'')] ''limit'')) = Num 7"
    by (simp add: parseInt_eval round_int_exact)
  have p3: "parseInt (toString (map_of [(''limit'', QStr ''-5'')] ''limit'')) = Num (- 5)"
    by (simp add: parseInt_eval round_int_exact)
  have p4: "parseInt (toString (map_of [(''limit'', QStr ''0'')] ''limit'')) = Num 0"
    by (simp add: parseInt_eval round_int_exact)
  have p5: "parseInt (toString (map_of [(''limit'', QStr ''abc'')] ''limit'')) = NaN"
    by (simp add: parseInt_eval)
  have p6: "map_of [(''page'', QStr ''2'')] ''limit'' = None"
    by simp
  show ?thesis
    using limit_resolution [of "[(''limit'', QStr ''250'')]" ?opts]
      limit_resolution [of "[(''limit'', QStr ''7'')]" ?opts]
      limit_resolution [of "[(''limit'', QStr ''-5'')]" ?opts]
      limit_resolution [of "[(''limit'', QStr ''0'')]" ?opts]
      limit_resolution [of "[(''limit'', QStr ''abc'')]" ?opts]
      limit_resolution [of "[(''page'', QStr ''2'')]" ?opts]
      m d p1 p2 p3 p4 p5 p6
    by (simp add: js_min_def num_le_def)
qed

text \<open>
  C1 as stated fails twice. With the default options, \<open>limit=0\<close> parses as the integer 0,
  which \<open>||\<close> treats like a missing value: the resolved limit is the default 20, not 0.
  With \<open>defaultLimit: 200\<close> and the default \<open>maxLimit\<close>, a request without \<open>limit\<close>
  resolves to 100, not to the configured default 200.
\<close>

theorem limit_resolution_counterexample:
  "parseInt (toString (map_of [(''limit'', QStr ''0'')] ''limit'')) = Num 0
   \<and> limit_of (normalize_options (default_options :: (unit, unit, unit) options))
        [(''limit'', QStr ''0'')] = Num 20
   \<and> map_of ([] :: query) ''limit'' = None
   \<and> defaultLimit (normalize_options ((default_options :: (unit, unit, unit) options)
         \<lparr>o_pagination := Some \<lparr>po_enabled = JUndefined, po_defaultLimit = Some (Num 200),
                                po_maxLimit = None\<rparr>\<rparr>)) = Num 200
   \<and> limit_of (normalize_options ((default_options :: (unit, unit, unit) options)
         \<lparr>o_pagination := Some \<lparr>po_enabled = JUndefined, po_defaultLimit = Some (Num 200),
                                po_maxLimit = None\<rparr>\<rparr>)) [] = Num 100"
  by (simp add: limit_of_def normalize_options_def default_options_def parseInt_eval
      round_int_exact num_or_def js_min_def)

text \<open>
  C8. The resolved page is the number parsed from \<open>page\<close>, except that a missing,
  non-numeric or less-than-1 value resolves to 1; the resolved page is always at least 1.
\<close>

theorem page_resolution:
  "(\<forall>n. parseInt (toString (map_of query ''page'')) = Num n \<longrightarrow>
        page_of query = Num (if n < 1 then 1 else n))
   \<and> (parseInt (toString (map_of query ''page'')) = PInf \<longrightarrow> page_of query = PInf)
   \<and> (parseInt (toString (map_of query ''page'')) = NInf \<longrightarrow> page_of query = Num 1)
   \<and> (parseInt (toString (map_of query ''page'')) = NaN \<longrightarrow> page_of query = Num 1)
   \<and> (map_of query ''page'' = None \<longrightarrow> page_of query = Num 1)
   \<and> num_le (Num 1) (page_of query)"
  by (cases "parseInt (toString (map_of query ''page''))")
     (auto simp: page_of_def num_or_def js_max_def num_le_def parseInt_undefined)

theorem page_resolution_witness:
  "page_of [(''page'', QStr ''3'')] = Num 3 \<and> page_of [(''page'', QStr ''-2'')] = Num 1
   \<and> page_of [(''page'', QStr ''abc'')] = Num 1 \<and> page_of [(''limit'', QStr ''5'')] = Num 1
   \<and> page_of [(''page'', QArr [''4'', ''9''])] = Num 4"
proof -
  have a: "parseInt (toString (map_of [(''page'', QStr ''3'')] ''page'')) = Num 3"
    by (simp add: parseInt_eval round_int_exact)
  have b: "parseInt (toString (map_of [(''page'', QStr ''-2'')] ''page'')) = Num (- 2)"
    by (simp add: parseInt_eval round_int_exact)
  have c: "parseInt (toString (map_of [(''page'', QStr ''abc'')] ''page'')) = NaN"
    by (simp add: parseInt_eval)
  have d: "map_of [(''limit'', QStr ''5'')] ''page'' = None"
    by simp
  have e: "parseInt (toString (map_of [(''page'', QArr [''4'', ''9''])] ''page'')) = Num 4"
    by (simp add: parseInt_eval round_int_exact)
  show ?thesis
    using page_resolution [of "[(''page'', QStr ''3'')]"]
      page_resolution [of "[(''page'', QStr ''-2'')]"]
      page_resolution [of "[(''page'', QStr ''abc'')]"]
      page_resolution [of "[(''limit'', QStr ''5'')]"]
      page_resolution [of "[(''page'', QArr [''4'', ''9''])]"]
      a b c d e
    by simp
qed

text \<open>
  C3, as amended. When the request supplies a \<open>sort\<close> value that is a non-empty string,
  the bare field is the value without one leading \<open>-\<close>; if the allowed-sort list is
  non-empty and does not contain the bare field, the resolved sort is the configured
  default, otherwise it is the requested value verbatim. When no \<open>sort\<close> value is supplied
  (the parameter is missing or empty) the resolved sort is the configured default. When
  \<open>sort\<close> is repeated, so that its value is an array, \<open>applySort\<close> throws a
  \<open>TypeError\<close>: no sort is resolved, and the list handler responds 500 with the error
  envelope carrying that error's message, without invoking the accessor.
\<close>

theorem sort_resolution:
  "(\<forall>s. map_of query ''sort'' = Some (QStr s) \<longrightarrow> s \<noteq> [] \<longrightarrow>
        strip_dash s = (if take 1 s = ''-'' then drop 1 s else s)
        \<and> applySort opts query =
            Inr (if sort_allowed opts \<noteq> [] \<and> strip_dash s \<notin> set (sort_allowed opts)
                 then sort_default opts else s))
   \<and> (map_of query ''sort'' = None \<or> map_of query ''sort'' = Some (QStr []) \<longrightarrow>
        applySort opts query = Inr (sort_default opts))
   \<and> (\<forall>xs. map_of query ''sort'' = Some (QArr xs) \<longrightarrow>
        applySort opts query = Inl not_a_function
        \<and> (\<forall>model req w. req_query req = query \<longrightarrow>
              list_handler opts model req w =
                (Some \<lparr>status = 500,
                        payload = ErrorBody True (JStr ''query.sort.replace is not a function'')\<rparr>,
                 \<lparr>world = w, trace = []\<rparr>)))"
proof -
  have "strip_dash s = (if take 1 s = ''-'' then drop 1 s else s)" for s
    by (cases s) auto
  then show ?thesis
    by (auto simp: applySort_def Let_def list_handler_def run_defs not_a_function_def or_else_def)
qed

theorem sort_resolution_witness:
  "applySort (normalize_options ((default_options :: (string list, string, string) options)
       \<lparr>o_sort := Some \<lparr>so_default = Some ''name'', so_allowed = Some [''name'']\<rparr>\<rparr>))
     [(''sort'', QStr ''-age'')] = Inr ''name''
   \<and> applySort (normalize_options ((default_options :: (string list, string, string) options)
       \<lparr>o_sort := Some \<lparr>so_default = Some ''name'', so_allowed = Some [''name'', ''age'']\<rparr>\<rparr>))
     [(''sort'', QStr ''-age'')] = Inr ''-age''
   \<and> applySort (normalize_options (default_options :: (string list, string, string) options))
     [(''sort'', QStr ''-age'')] = Inr ''-age''
   \<and> applySort (normalize_options (default_options :: (string list, string, string) options))
     [(''page'', QStr ''2'')] = Inr ''-createdAt''
   \<and> list_handler (normalize_options default_options) store_model
        (example_request [(''sort'', QArr [''name'', ''-age''])] [] []) [''alice'']
      = (Some \<lparr>status = 500,
               payload = ErrorBody True (JStr ''query.sort.replace is not a function'')\<rparr>,
         \<lparr>world = [''alice''], trace = []\<rparr>)"
proof -
  let ?o1 = "normalize_options ((default_options :: (string list, string, string) options)
       \<lparr>o_sort := Some \<lparr>so_default = Some ''name'', so_allowed = Some [''name'']\<rparr>\<rparr>)"
  let ?o2 = "normalize_options ((default_options :: (string list, string, string) options)
       \<lparr>o_sort := Some \<lparr>so_default = Some ''name'', so_allowed = Some [''name'', ''age'']\<rparr>\<rparr>)"
  let ?o3 = "normalize_options (default_options :: (string list, string, string) options)"
  let ?req = "example_request [(''sort'', QArr [''name'', ''-age''])] [] []"
  have o1: "sort_allowed ?o1 = [''name'']" "sort_default ?o1 = ''name''"
    by (simp_all add: normalize_options_def default_options_def)
  have o2: "sort_allowed ?o2 = [''name'', ''age'']"
    by (simp add: normalize_options_def default_options_def)
  have o3: "sort_allowed ?o3 = []" "sort_default ?o3 = ''-createdAt''"
    by (simp_all add: normalize_options_def default_options_def)
  have q: "map_of [(''sort'', QStr ''-age'')] ''sort'' = Some (QStr ''-age'')"
    "map_of [(''page'', QStr ''2'')] ''sort'' = None"
    "map_of [(''sort'', QArr [''name'', ''-age''])] ''sort'' = Some (QArr [''name'', ''-age''])"
    "req_query ?req = [(''sort'', QArr [''name'', ''-age''])]"
    by (simp_all add: example_request_def)
  show ?thesis
    using sort_resolution [of "[(''sort'', QStr ''-age'')]" ?o1]
      sort_resolution [of "[(''sort'', QStr ''-age'')]" ?o2]
      sort_resolution [of "[(''sort'', QStr ''-age'')]" ?o3]
      sort_resolution [of "[(''page'', QStr ''2'')]" ?o3]
      sort_resolution [of "[(''sort'', QArr [''name'', ''-age''])]" ?o3]
      o1 o2 o3 q
    by simp
qed

text \<open>
  C3 as stated fails for a repeated \<open>sort\<close> parameter: with no allowed-sort list the claim
  resolves the requested value verbatim, but \<open>applySort\<close> throws and the request ends
  in the 500 error envelope.
\<close>

theorem sort_resolution_counterexample:
  "map_of [(''sort'', QArr [''name'', ''-age''])] ''sort'' = Some (QArr [''name'', ''-age''])
   \<and> sort_allowed (normalize_options (default_options :: (string list, string, string) options)) = []
   \<and> applySort (normalize_options (default_options :: (string list, string, string) options))
        [(''sort'', QArr [''name'', ''-age''])]
      = Inl (Thrown (JStr ''query.sort.replace is not a function''))
   \<and> list_handler (normalize_options default_options) store_model
        (example_request [(''sort'', QArr [''name'', ''-age''])] [] []) [''alice'']
      = (Some \<lparr>status = 500,
               payload = ErrorBody True (JStr ''query.sort.replace is not a function'')\<rparr>,
         \<lparr>world = [''alice''], trace = []\<rparr>)"
  by (simp add: applySort_def list_handler_def run_defs not_a_function_def or_else_def
      normalize_options_def default_options_def example_request_def Let_def)

text \<open>
  C4, as amended. The resolved filter is empty when filtering is disabled. Otherwise, for a
  query object (each key once), it consists of exactly the properties whose key is none of
  \<open>page\<close>, \<open>limit\<close>, \<open>sort\<close> and \<open>__proto__\<close> and is admitted by the allowed-filter
  list (the list is empty or contains the key), each with its raw value unchanged (a string,
  or the array of a repeated parameter). The key \<open>__proto__\<close> is never stored. Hence the
  keys of the filter are among the allowed-filter list whenever that list is non-empty.
\<close>

theorem filter_resolution:
  "(\<not> filter_enabled opts \<longrightarrow> buildFilter opts query = [])
   \<and> (filter_enabled opts \<longrightarrow> distinct (map fst query) \<longrightarrow>
        buildFilter opts query =
          filter (\<lambda>(k, v). k \<notin> {''page'', ''limit'', ''sort'', ''__proto__''} \<and>
                          (filter_allowed opts = [] \<or> k \<in> set (filter_allowed opts))) query)
   \<and> (filter_allowed opts \<noteq> [] \<longrightarrow>
        fst ` set (buildFilter opts query) \<subseteq> set (filter_allowed opts))
   \<and> ''__proto__'' \<notin> fst ` set (buildFilter opts query)"
  using buildFilter_loop_filter [of query "[]" opts] buildFilter_loop_keys [of opts query "[]"]
  by (auto simp: buildFilter_def)

theorem filter_resolution_witness:
  "buildFilter (normalize_options ((default_options :: (unit, unit, unit) options)
       \<lparr>o_filter := Some \<lparr>fo_enabled = JUndefined, fo_allowed = Some [''age'', ''role'']\<rparr>\<rparr>))
     [(''age'', QStr ''30''), (''city'', QStr ''NYC'')] = [(''age'', QStr ''30'')]
   \<and> buildFilter (normalize_options (default_options :: (unit, unit, unit) options))
     [(''page'', QStr ''2''), (''age'', QStr ''30''), (''sort'', QStr ''-age''),
      (''city'', QArr [''NYC'', ''LA''])] =
       [(''age'', QStr ''30''), (''city'', QArr [''NYC'', ''LA''])]
   \<and> buildFilter (normalize_options ((default_options :: (unit, unit, unit) options)
       \<lparr>o_filter := Some \<lparr>fo_enabled = JBool False, fo_allowed = None\<rparr>\<rparr>))
     [(''age'', QStr ''30''), (''city'', QStr ''NYC'')] = []"
proof -
  let ?o1 = "normalize_options ((default_options :: (unit, unit, unit) options)
       \<lparr>o_filter := Some \<lparr>fo_enabled = JUndefined, fo_allowed = Some [''age'', ''role'']\<rparr>\<rparr>)"
  let ?o2 = "normalize_options (default_options :: (unit, unit, unit) options)"
  let ?o3 = "normalize_options ((default_options :: (unit, unit, unit) options)
       \<lparr>o_filter := Some \<lparr>fo_enabled = JBool False, fo_allowed = None\<rparr>\<rparr>)"
  have o1: "filter_enabled ?o1" "filter_allowed ?o1 = [''age'', ''role'']"
    by (simp_all add: normalize_options_def default_options_def not_false_def)
  have o2: "filter_enabled ?o2" "filter_allowed ?o2 = []"
    by (simp_all add: normalize_options_def default_options_def not_false_def)
  have o3: "\<not> filter_enabled ?o3"
    by (simp add: normalize_options_def default_options_def not_false_def)
  have d1: "distinct (map fst [(''age'', QStr ''30''), (''city'', QStr ''NYC'')])"
    by simp
  have d2: "distinct (map fst
      [(''page'', QStr ''2''), (''age'', QStr ''30''), (''sort'', QStr ''-age''),
       (''city'', QArr [''NYC'', ''LA''])])"
    by simp
  show ?thesis
    using filter_resolution [of ?o1 "[(''age'', QStr ''30''), (''city'', QStr ''NYC'')]"]
      filter_resolution [of ?o2
        "[(''page'', QStr ''2''), (''age'', QStr ''30''), (''sort'', QStr ''-age''),
          (''city'', QArr [''NYC'', ''LA''])]"]
      filter_resolution [of ?o3 "[(''age'', QStr ''30''), (''city'', QStr ''NYC'')]"]
      o1 o2 o3 d1 d2
    by simp
qed

text \<open>
  C4 as stated fails for the query key \<open>__proto__\<close>: filtering is enabled, the
  allowed-filter list is empty and the key is not reserved, yet the filter does not
  contain it.
\<close>

theorem filter_resolution_counterexample:
  "filter_enabled (normalize_options (default_options :: (unit, unit, unit) options))
   \<and> filter_allowed (normalize_options (default_options :: (unit, unit, unit) options)) = []
   \<and> ''__proto__'' \<notin> {''page'', ''limit'', ''sort''}
   \<and> map_of [(''__proto__'', QStr ''x''), (''age'', QStr ''30'')] ''__proto__'' = Some (QStr ''x'')
   \<and> buildFilter (normalize_options (default_options :: (unit, unit, unit) options))
        [(''__proto__'', QStr ''x''), (''age'', QStr ''30'')] = [(''age'', QStr ''30'')]"
  by (simp add: buildFilter_def assign_def normalize_options_def default_options_def not_false_def)

subsection \<open>Option normalisation\<close>

text \<open>
  C10. A falsy value supplied for \<open>pagination.defaultLimit\<close>, \<open>pagination.maxLimit\<close> or
  \<open>sort.default\<close> (0 or \<open>NaN\<close> for the numbers, the empty string for the sort) is replaced
  by the default 20, 100 and \<open>'-createdAt'\<close>, exactly as an absent value is.
  \<open>pagination.enabled\<close> and \<open>filter.enabled\<close> are switched off only by the literal
  \<open>false\<close>: every other value, and an absent one, leaves the feature enabled.
\<close>

theorem normalize_falsy:
  "(\<forall>p v. o_pagination options = Some p \<longrightarrow> po_defaultLimit p = Some v \<longrightarrow> \<not> truthy_num v \<longrightarrow>
       defaultLimit (normalize_options options) = Num 20)
   \<and> (\<forall>p v. o_pagination options = Some p \<longrightarrow> po_maxLimit p = Some v \<longrightarrow> \<not> truthy_num v \<longrightarrow>
       maxLimit (normalize_options options) = Num 100)
   \<and> (\<forall>s. o_sort options = Some s \<longrightarrow> so_default s = Some [] \<longrightarrow>
       sort_default (normalize_options options) = ''-createdAt'')
   \<and> (chain (o_pagination options) po_defaultLimit = None \<longrightarrow>
         defaultLimit (normalize_options options) = Num 20)
   \<and> (chain (o_pagination options) po_maxLimit = None \<longrightarrow>
         maxLimit (normalize_options options) = Num 100)
   \<and> (chain (o_sort options) so_default = None \<longrightarrow>
         sort_default (normalize_options options) = ''-createdAt'')
   \<and> (pagination_enabled (normalize_options options) \<longleftrightarrow>
         \<not> (\<exists>p. o_pagination options = Some p \<and> po_enabled p = JBool False))
   \<and> (filter_enabled (normalize_options options) \<longleftrightarrow>
         \<not> (\<exists>f. o_filter options = Some f \<and> fo_enabled f = JBool False))"
proof (intro conjI allI impI)
  fix p v
  assume "o_pagination options = Some p" "po_defaultLimit p = Some v" "\<not> truthy_num v"
  then show "defaultLimit (normalize_options options) = Num 20"
    by (simp add: normalize_options_def num_or_def)
next
  fix p v
  assume "o_pagination options = Some p" "po_maxLimit p = Some v" "\<not> truthy_num v"
  then show "maxLimit (normalize_options options) = Num 100"
    by (simp add: normalize_options_def num_or_def)
next
  fix s
  assume "o_sort options = Some s" "so_default s = Some []"
  then show "sort_default (normalize_options options) = ''-createdAt''"
    by (simp add: normalize_options_def)
next
  assume "chain (o_pagination options) po_defaultLimit = None"
  then show "defaultLimit (normalize_options options) = Num 20"
    by (simp add: normalize_options_def)
next
  assume "chain (o_pagination options) po_maxLimit = None"
  then show "maxLimit (normalize_options options) = Num 100"
    by (simp add: normalize_options_def)
next
  assume "chain (o_sort options) so_default = None"
  then show "sort_default (normalize_options options) = ''-createdAt''"
    by (simp add: normalize_options_def)
next
  show "pagination_enabled (normalize_options options) \<longleftrightarrow>
         \<not> (\<exists>p. o_pagination options = Some p \<and> po_enabled p = JBool False)"
    by (cases "o_pagination options") (auto simp: normalize_options_def not_false_def)
next
  show "filter_enabled (normalize_options options) \<longleftrightarrow>
         \<not> (\<exists>f. o_filter options = Some f \<and> fo_enabled f = JBool False)"
    by (cases "o_filter options") (auto simp: normalize_options_def not_false_def)
qed

theorem normalize_falsy_witness:
  "defaultLimit (normalize_options ((default_options :: (unit, unit, unit) options)
       \<lparr>o_pagination := Some \<lparr>po_enabled = JNum 0, po_defaultLimit = Some (Num 0),
                              po_maxLimit = Some NaN\<rparr>,
        o_sort := Some \<lparr>so_default = Some [], so_allowed = None\<rparr>,
        o_filter := Some \<lparr>fo_enabled = JNull, fo_allowed = None\<rparr>\<rparr>)) = Num 20
   \<and> maxLimit (normalize_options ((default_options :: (unit, unit, unit) options)
       \<lparr>o_pagination := Some \<lparr>po_enabled = JNum 0, po_defaultLimit = Some (Num 0),
                              po_maxLimit = Some NaN\<rparr>,
        o_sort := Some \<lparr>so_default = Some [], so_allowed = None\<rparr>,
        o_filter := Some \<lparr>fo_enabled = JNull, fo_allowed = None\<rparr>\<rparr>)) = Num 100
   \<and> sort_default (normalize_options ((default_options :: (unit, unit, unit) options)
       \<lparr>o_pagination := Some \<lparr>po_enabled = JNum 0, po_defaultLimit = Some (Num 0),
                              po_maxLimit = Some NaN\<rparr>,
        o_sort := Some \<lparr>so_default = Some [], so_allowed = None\<rparr>,
        o_filter := Some \<lparr>fo_enabled = JNull, fo_allowed = None\<rparr>\<rparr>)) = ''-createdAt''
   \<and> pagination_enabled (normalize_options ((default_options :: (unit, unit, unit) options)
       \<lparr>o_pagination := Some \<lparr>po_enabled = JNum 0, po_defaultLimit = Some (Num 0),
                              po_maxLimit = Some NaN\<rparr>,
        o_sort := Some \<lparr>so_default = Some [], so_allowed = None\<rparr>,
        o_filter := Some \<lparr>fo_enabled = JNull, fo_allowed = None\<rparr>\<rparr>))
   \<and> filter_enabled (normalize_options ((default_options :: (unit, unit, unit) options)
       \<lparr>o_pagination := Some \<lparr>po_enabled = JNum 0, po_defaultLimit = Some (Num 0),
                              po_maxLimit = Some NaN\<rparr>,
        o_sort := Some \<lparr>so_default = Some [], so_allowed = None\<rparr>,
        o_filter := Some \<lparr>fo_enabled = JNull, fo_allowed = None\<rparr>\<rparr>))
   \<and> \<not> pagination_enabled (normalize_options ((default_options :: (unit, unit, unit) options)
       \<lparr>o_pagination := Some \<lparr>po_enabled = JBool False, po_defaultLimit = None,
                              po_maxLimit = None\<rparr>\<rparr>))"
proof -
  let ?o = "(default_options :: (unit, unit, unit) options)
       \<lparr>o_pagination := Some \<lparr>po_enabled = JNum 0, po_defaultLimit = Some (Num 0),
                              po_maxLimit = Some NaN\<rparr>,
        o_sort := Some \<lparr>so_default = Some [], so_allowed = None\<rparr>,
        o_filter := Some \<lparr>fo_enabled = JNull, fo_allowed = None\<rparr>\<rparr>"
  let ?o' = "(default_options :: (unit, unit, unit) options)
       \<lparr>o_pagination := Some \<lparr>po_enabled = JBool False, po_defaultLimit = None,
                              po_maxLimit = None\<rparr>\<rparr>"
  have p: "o_pagination ?o = Some \<lparr>po_enabled = JNum 0, po_defaultLimit = Some (Num 0),
                              po_maxLimit = Some NaN\<rparr>"
    and s: "o_sort ?o = Some \<lparr>so_default = Some [], so_allowed = None\<rparr>"
    and f: "o_filter ?o = Some \<lparr>fo_enabled = JNull, fo_allowed = None\<rparr>"
    and p': "o_pagination ?o' = Some \<lparr>po_enabled = JBool False, po_defaultLimit = None,
                              po_maxLimit = None\<rparr>"
    by (simp_all add: default_options_def)
  show ?thesis
    using normalize_falsy [of ?o] normalize_falsy [of ?o'] p s f p'
    by simp
qed

subsection \<open>The list handler\<close>

text \<open>
  C7, as amended. In every paginated list response the envelope carries the resolved page
  and limit, and \<open>total\<close> is the count the accessor returned. The read was issued with that
  limit and with \<open>skip\<close> the binary64 product \<open>(page - 1) * limit\<close>, which is the exact
  product whenever \<open>page - 1\<close> and the product are at most \<open>2^53\<close> in magnitude.
  \<open>totalPages\<close> is \<open>Math.ceil\<close> of the binary64 quotient \<open>total / limit\<close>, which is the
  exact ceiling (the least number of pages of that size holding \<open>total\<close> items) whenever
  \<open>0 \<le> total < 2^53\<close> and \<open>0 < limit < 2^53\<close>. \<open>hasNextPage\<close> holds exactly when
  \<open>page < totalPages\<close>.
\<close>

theorem pagination_envelope:
  assumes en: "pagination_enabled opts"
    and run: "list_handler opts model req w = (Some res, st)"
    and pay: "payload res = ListBody data (Some pg)"
  shows "page pg = page_of (req_query req)
   \<and> limit pg = limit_of opts (req_query req)
   \<and> (\<exists>srt w1. applySort opts (req_query req) = Inr srt
         \<and> trace st =
             [(Exec (limit_q (limit pg) (skip_q (js_mul (js_sub (page pg) (Num 1)) (limit pg))
                       (list_query opts (buildFilter opts (req_query req)) srt))), Returned),
              (CountDocuments (buildFilter opts (req_query req)), Returned)]
         \<and> exec_find model
               (limit_q (limit pg) (skip_q (js_mul (js_sub (page pg) (Num 1)) (limit pg))
                       (list_query opts (buildFilter opts (req_query req)) srt))) w
               = (Inr data, w1)
         \<and> countDocuments model (buildFilter opts (req_query req)) w1
               = (Inr (total pg), world st))
   \<and> totalPages pg = js_ceil_div (total pg) (limit pg)
   \<and> hasNextPage pg = num_less (page pg) (totalPages pg)
   \<and> status res = 200
   \<and> (\<forall>p l. page pg = Num p \<longrightarrow> limit pg = Num l \<longrightarrow>
         \<bar>p - 1\<bar> \<le> 2 ^ 53 \<longrightarrow> \<bar>(p - 1) * l\<bar> \<le> 2 ^ 53 \<longrightarrow>
         js_mul (js_sub (page pg) (Num 1)) (limit pg) = Num ((p - 1) * l))
   \<and> (\<forall>t l. total pg = Num t \<longrightarrow> limit pg = Num l \<longrightarrow>
         0 \<le> t \<longrightarrow> t < 2 ^ 53 \<longrightarrow> 0 < l \<longrightarrow> l < 2 ^ 53 \<longrightarrow>
         totalPages pg = Num \<lceil>real_of_int t / real_of_int l\<rceil>
         \<and> (\<lceil>real_of_int t / real_of_int l\<rceil> - 1) * l < t
         \<and> t \<le> \<lceil>real_of_int t / real_of_int l\<rceil> * l)"
proof -
  let ?q = "req_query req"
  obtain srt where srt: "applySort opts ?q = Inr srt"
  proof (cases "applySort opts ?q")
    case (Inl e)
    from list_handler_throw [OF Inl, of model w] run pay have False
      by (cases e) (simp_all add: errorResponse_def status_json_def)
    then show ?thesis ..
  next
    case (Inr s)
    then show ?thesis using that by blast
  qed
  let ?read = "limit_q (limit_of opts ?q)
      (skip_q (js_mul (js_sub (page_of ?q) (Num 1)) (limit_of opts ?q))
         (list_query opts (buildFilter opts ?q) srt))"
  obtain r1 w1 where r1: "exec_find model ?read w = (r1, w1)"
    by (cases "exec_find model ?read w")
  obtain r2 w2 where r2: "countDocuments model (buildFilter opts ?q) w1 = (r2, w2)"
    by (cases "countDocuments model (buildFilter opts ?q) w1")
  from r1 en have r1': "exec_find model
      (if pagination_enabled opts then ?read else list_query opts (buildFilter opts ?q) srt) w
      = (r1, w1)"
    by simp
  note h = list_handler_run [OF srt r1' r2]
  from h run have X: "(case r1 of
        Inl e1 \<Rightarrow> (case r2 of
            Inl e2 \<Rightarrow> catch_response (if exec_settles_first model w then e1 else e2)
                        ''Failed to fetch documents'' 500
          | Inr tot \<Rightarrow> catch_response e1 ''Failed to fetch documents'' 500)
      | Inr data \<Rightarrow> (case r2 of
            Inl e2 \<Rightarrow> catch_response e2 ''Failed to fetch documents'' 500
          | Inr tot \<Rightarrow>
              Some \<lparr>status = 200,
                     payload = ListBody data
                       (if pagination_enabled opts then
                          Some \<lparr>total = tot, page = page_of ?q, limit = limit_of opts ?q,
                                 totalPages = js_ceil_div tot (limit_of opts ?q),
                                 hasNextPage = num_less (page_of ?q)
                                   (js_ceil_div tot (limit_of opts ?q))\<rparr>
                        else None)\<rparr>)) = Some res"
    and S: "st = \<lparr>world = w2,
        trace = [(Exec ?read, outcome_of r1),
                 (CountDocuments (buildFilter opts ?q), outcome_of r2)]\<rparr>"
    using en by simp_all
  have no_catch: "catch_response e ''Failed to fetch documents'' 500 \<noteq> Some res" for e
    using catch_payload [of e "''Failed to fetch documents''" 500 res] pay by auto
  obtain d tot where d: "r1 = Inr d" and tot: "r2 = Inr tot"
    using X no_catch by (cases r1; cases r2) auto
  from X d tot en have res: "res = \<lparr>status = 200,
       payload = ListBody d
         (Some \<lparr>total = tot, page = page_of ?q, limit = limit_of opts ?q,
                totalPages = js_ceil_div tot (limit_of opts ?q),
                hasNextPage = num_less (page_of ?q) (js_ceil_div tot (limit_of opts ?q))\<rparr>)\<rparr>"
    by simp
  with pay have dd: "d = data"
    and f: "total pg = tot" "page pg = page_of ?q" "limit pg = limit_of opts ?q"
      "totalPages pg = js_ceil_div tot (limit_of opts ?q)"
      "hasNextPage pg = num_less (page_of ?q) (js_ceil_div tot (limit_of opts ?q))"
    by auto
  have tr: "trace st = [(Exec ?read, Returned), (CountDocuments (buildFilter opts ?q), Returned)]"
    and wd: "world st = w2"
    using S d tot by simp_all
  have ex: "\<exists>srt w1. applySort opts ?q = Inr srt
         \<and> trace st =
             [(Exec (limit_q (limit pg) (skip_q (js_mul (js_sub (page pg) (Num 1)) (limit pg))
                       (list_query opts (buildFilter opts ?q) srt))), Returned),
              (CountDocuments (buildFilter opts ?q), Returned)]
         \<and> exec_find model
               (limit_q (limit pg) (skip_q (js_mul (js_sub (page pg) (Num 1)) (limit pg))
                       (list_query opts (buildFilter opts ?q) srt))) w
               = (Inr data, w1)
         \<and> countDocuments model (buildFilter opts ?q) w1 = (Inr (total pg), world st)"
    using srt tr wd r1 r2 d tot dd f by (intro exI [of _ srt] exI [of _ w1]) simp
  have sk: "js_mul (js_sub (page pg) (Num 1)) (limit pg) = Num ((p - 1) * l)"
    if "page pg = Num p" "limit pg = Num l" "\<bar>p - 1\<bar> \<le> 2 ^ 53" "\<bar>(p - 1) * l\<bar> \<le> 2 ^ 53" for p l
    using that skip_exact [of p l] by simp
  have tp: "totalPages pg = Num \<lceil>real_of_int t / real_of_int l\<rceil>
         \<and> (\<lceil>real_of_int t / real_of_int l\<rceil> - 1) * l < t
         \<and> t \<le> \<lceil>real_of_int t / real_of_int l\<rceil> * l"
    if "total pg = Num t" "limit pg = Num l" "0 \<le> t" "t < 2 ^ 53" "0 < l" "l < 2 ^ 53" for t l
  proof -
    have "totalPages pg = Num (ceil_quot t l)"
      using that f by (simp add: js_ceil_div_def)
    then show ?thesis
      using ceil_quot_exact [OF that(3-6)] ceil_least [OF that(5), of t] by simp
  qed
  have tpd: "totalPages pg = js_ceil_div (total pg) (limit pg)"
    and hn: "hasNextPage pg = num_less (page pg) (totalPages pg)"
    using f by simp_all
  have s200: "status res = 200"
    using res by simp
  from f(2) f(3) ex tpd hn s200 sk tp show ?thesis
    by blast
qed

theorem pagination_envelope_witness:
  "pagination_enabled
     (normalize_options (default_options :: (string list, string, string) options))
   \<and> list_handler (normalize_options default_options) (fixed_count_model 124)
        (example_request [(''page'', QStr ''1''), (''limit'', QStr ''10'')] [] []) []
      = (Some \<lparr>status = 200,
           payload = ListBody [] (Some \<lparr>total = Num 124, page = Num 1, limit = Num 10,
                                         totalPages = Num 13, hasNextPage = True\<rparr>)\<rparr>,
         \<lparr>world = [],
           trace = [(Exec \<lparr>q_base = Find [] [], q_sort = Some ''-createdAt'', q_populate = [],
                            q_skip = Some (Num 0), q_limit = Some (Num 10)\<rparr>, Returned),
                    (CountDocuments [], Returned)]\<rparr>)
   \<and> list_handler (normalize_options default_options) (fixed_count_model 124)
        (example_request [(''page'', QStr ''13''), (''limit'', QStr ''10'')] [] []) []
      = (Some \<lparr>status = 200,
           payload = ListBody [] (Some \<lparr>total = Num 124, page = Num 13, limit = Num 10,
                                         totalPages = Num 13, hasNextPage = False\<rparr>)\<rparr>,
         \<lparr>world = [],
           trace = [(Exec \<lparr>q_base = Find [] [], q_sort = Some ''-createdAt'', q_populate = [],
                            q_skip = Some (Num 120), q_limit = Some (Num 10)\<rparr>, Returned),
                    (CountDocuments [], Returned)]\<rparr>)"
proof -
  let ?opts = "normalize_options default_options :: (string list, string, string) opts"
  let ?r1 = "example_request [(''page'', QStr ''1''), (''limit'', QStr ''10'')] [] []"
  let ?r13 = "example_request [(''page'', QStr ''13''), (''limit'', QStr ''10'')] [] []"
  let ?run1 = "list_handler ?opts (fixed_count_model 124) ?r1 []"
  let ?run13 = "list_handler ?opts (fixed_count_model 124) ?r13 []"
  let ?pg1 = "\<lparr>total = Num 124, page = Num 1, limit = Num 10, totalPages = Num 13,
      hasNextPage = True\<rparr>"
  let ?pg13 = "\<lparr>total = Num 124, page = Num 13, limit = Num 10, totalPages = Num 13,
      hasNextPage = False\<rparr>"
  let ?res1 = "\<lparr>status = 200, payload = ListBody ([] :: string list) (Some ?pg1)\<rparr>"
  let ?res13 = "\<lparr>status = 200, payload = ListBody ([] :: string list) (Some ?pg13)\<rparr>"
  have en: "pagination_enabled ?opts"
    by (simp add: normalize_options_def default_options_def not_false_def)
  have e1: "?run1 =
      (Some ?res1,
       \<lparr>world = [],
         trace = [(Exec \<lparr>q_base = Find [] [], q_sort = Some ''-createdAt'', q_populate = [],
                          q_skip = Some (Num 0), q_limit = Some (Num 10)\<rparr>, Returned),
                  (CountDocuments [], Returned)]\<rparr>)"
    by (simp add: list_eval fixed_count_model_def ceil_quot_examples)
  have e13: "?run13 =
      (Some ?res13,
       \<lparr>world = [],
         trace = [(Exec \<lparr>q_base = Find [] [], q_sort = Some ''-createdAt'', q_populate = [],
                          q_skip = Some (Num 120), q_limit = Some (Num 10)\<rparr>, Returned),
                  (CountDocuments [], Returned)]\<rparr>)"
    by (simp add: list_eval fixed_count_model_def ceil_quot_examples)
  have p1: "payload ?res1 = ListBody [] (Some ?pg1)"
    and p13: "payload ?res13 = ListBody [] (Some ?pg13)"
    by simp_all
  show ?thesis
    using pagination_envelope [OF en e1 p1] pagination_envelope [OF en e13 p13] en e1 e13
    by simp
qed

text \<open>
  C7 as stated fails where the product leaves the exact range: for \<open>page=90981810653952\<close>
  and \<open>limit=99\<close> the exact \<open>(page - 1) * limit\<close> is 9007199254741149, and the read is
  issued with \<open>skip\<close> 9007199254741148.
\<close>

theorem pagination_envelope_counterexample:
  "list_handler (normalize_options default_options) (fixed_count_model 124)
        (example_request [(''page'', QStr ''90981810653952''), (''limit'', QStr ''99'')] [] []) []
      = (Some \<lparr>status = 200,
           payload = ListBody [] (Some \<lparr>total = Num 124, page = Num 90981810653952,
                                         limit = Num 99, totalPages = Num 2,
                                         hasNextPage = False\<rparr>)\<rparr>,
         \<lparr>world = [],
           trace = [(Exec \<lparr>q_base = Find [] [], q_sort = Some ''-createdAt'', q_populate = [],
                            q_skip = Some (Num 9007199254741148), q_limit = Some (Num 99)\<rparr>,
                     Returned),
                    (CountDocuments [], Returned)]\<rparr>)
   \<and> (90981810653952 - 1) * 99 = (9007199254741149 :: int)"
  by (simp add: list_eval fixed_count_model_def ceil_quot_examples round_int_skip_example)

text \<open>
  C2, as amended. With pagination disabled: when resolving the sort throws (an array-valued
  \<open>sort\<close>), the handler invokes nothing and responds as its catch block does. Otherwise
  it issues the unwindowed read (no skip, no limit) and then the count with the same
  filter, and nothing else. When both return it responds 200 with \<open>{data}\<close> and the count
  is discarded; when exactly one of them rejects it responds as the catch block does for
  that rejection; when both reject, for the rejection that settles first. The catch block
  responds 500 with the error envelope carrying the thrown value's message or, when that is
  falsy, \<open>"Failed to fetch documents"\<close>; for a thrown \<open>null\<close> or \<open>undefined\<close> it sends
  no response.
\<close>

theorem unpaginated_list:
  assumes off: "\<not> pagination_enabled opts"
    and run: "list_handler opts model req w = (res, st)"
  shows "(\<forall>e. applySort opts (req_query req) = Inl e \<longrightarrow>
       trace st = [] \<and> world st = w
       \<and> res = catch_response e ''Failed to fetch documents'' 500)
   \<and> (\<forall>srt r1 w1 r2 w2.
         applySort opts (req_query req) = Inr srt \<longrightarrow>
         exec_find model (list_query opts (buildFilter opts (req_query req)) srt) w = (r1, w1) \<longrightarrow>
         countDocuments model (buildFilter opts (req_query req)) w1 = (r2, w2) \<longrightarrow>
           q_skip (list_query opts (buildFilter opts (req_query req)) srt) = None
           \<and> q_limit (list_query opts (buildFilter opts (req_query req)) srt) = None
           \<and> trace st =
               [(Exec (list_query opts (buildFilter opts (req_query req)) srt), outcome_of r1),
                (CountDocuments (buildFilter opts (req_query req)), outcome_of r2)]
           \<and> world st = w2
           \<and> (\<forall>data tot. r1 = Inr data \<longrightarrow> r2 = Inr tot \<longrightarrow>
                 res = Some \<lparr>status = 200, payload = ListBody data None\<rparr>)
           \<and> (\<forall>data e. r1 = Inr data \<longrightarrow> r2 = Inl e \<longrightarrow>
                 res = catch_response e ''Failed to fetch documents'' 500)
           \<and> (\<forall>e tot. r1 = Inl e \<longrightarrow> r2 = Inr tot \<longrightarrow>
                 res = catch_response e ''Failed to fetch documents'' 500)
           \<and> (\<forall>e1 e2. r1 = Inl e1 \<longrightarrow> r2 = Inl e2 \<longrightarrow>
                 res = catch_response (if exec_settles_first model w then e1 else e2)
                         ''Failed to fetch documents'' 500))
   \<and> (\<forall>msg. catch_response (Thrown msg) ''Failed to fetch documents'' 500 =
         Some (\<lparr>status = 500,
                payload = ErrorBody True (or_else msg (JStr ''Failed to fetch documents''))\<rparr>
               :: 'd response))
   \<and> catch_response ThrownNullish ''Failed to fetch documents'' 500 = (None :: 'd response option)"
proof (intro conjI allI impI)
  fix e
  assume "applySort opts (req_query req) = Inl e"
  from list_handler_throw [OF this, of model w] run
  show "trace st = []" "world st = w" "res = catch_response e ''Failed to fetch documents'' 500"
    by auto
next
  fix srt r1 w1 r2 w2
  let ?q = "list_query opts (buildFilter opts (req_query req)) srt"
  assume srt: "applySort opts (req_query req) = Inr srt"
    and r1: "exec_find model ?q w = (r1, w1)"
    and r2: "countDocuments model (buildFilter opts (req_query req)) w1 = (r2, w2)"
  from r1 off have r1': "exec_find model
      (if pagination_enabled opts
       then limit_q (limit_of opts (req_query req))
              (skip_q (js_mul (js_sub (page_of (req_query req)) (Num 1))
                         (limit_of opts (req_query req))) ?q)
       else ?q) w = (r1, w1)"
    by simp
  note h = list_handler_run [OF srt r1' r2]
  show "q_skip ?q = None" "q_limit ?q = None"
    using list_query_window [of opts "buildFilter opts (req_query req)" srt] by simp_all
  show "trace st = [(Exec ?q, outcome_of r1),
      (CountDocuments (buildFilter opts (req_query req)), outcome_of r2)]"
    and "world st = w2"
    using h run off by auto
  { fix data tot assume "r1 = Inr data" "r2 = Inr tot"
    with h run off show "res = Some \<lparr>status = 200, payload = ListBody data None\<rparr>" by simp }
  { fix data e assume "r1 = Inr data" "r2 = Inl e"
    with h run show "res = catch_response e ''Failed to fetch documents'' 500" by simp }
  { fix e tot assume "r1 = Inl e" "r2 = Inr tot"
    with h run show "res = catch_response e ''Failed to fetch documents'' 500" by simp }
  { fix e1 e2 assume "r1 = Inl e1" "r2 = Inl e2"
    with h run show "res = catch_response (if exec_settles_first model w then e1 else e2)
        ''Failed to fetch documents'' 500" by simp }
next
  fix msg
  show "catch_response (Thrown msg) ''Failed to fetch documents'' 500 =
         Some (\<lparr>status = 500,
                payload = ErrorBody True (or_else msg (JStr ''Failed to fetch documents''))\<rparr>
               :: 'd response)"
    by (simp add: errorResponse_def status_json_def)
next
  show "catch_response ThrownNullish ''Failed to fetch documents'' 500 = (None :: 'd response option)"
    by simp
qed

theorem unpaginated_list_witness:
  "\<not> pagination_enabled (normalize_options unpaginated_options)
   \<and> fst (list_handler (normalize_options unpaginated_options) store_model
        (example_request [(''page'', QStr ''2''), (''limit'', QStr ''1'')] [] []) [''alice'', ''bob''])
      = Some \<lparr>status = 200, payload = ListBody [''alice'', ''bob''] None\<rparr>
   \<and> trace (snd (list_handler (normalize_options unpaginated_options) store_model
        (example_request [(''page'', QStr ''2''), (''limit'', QStr ''1'')] [] []) [''alice'', ''bob'']))
      = [(Exec \<lparr>q_base = Find [] [], q_sort = Some ''-createdAt'', q_populate = [],
                 q_skip = None, q_limit = None\<rparr>, Returned),
         (CountDocuments [], Returned)]
   \<and> fst (list_handler (normalize_options unpaginated_options) failing_model
        (example_request [] [] []) [''alice''])
      = Some \<lparr>status = 500, payload = ErrorBody True (JStr ''count failed'')\<rparr>
   \<and> trace (snd (list_handler (normalize_options unpaginated_options) failing_model
        (example_request [] [] []) [''alice'']))
      = [(Exec \<lparr>q_base = Find [] [], q_sort = Some ''-createdAt'', q_populate = [],
                 q_skip = None, q_limit = None\<rparr>, Threw (Thrown (JStr ''read failed''))),
         (CountDocuments [], Threw (Thrown (JStr ''count failed'')))]"
proof -
  let ?opts = "normalize_options unpaginated_options"
  let ?req = "example_request [(''page'', QStr ''2''), (''limit'', QStr ''1'')] [] []"
  let ?req' = "example_request [] [] []"
  let ?w = "[''alice'', ''bob'']"
  let ?run = "list_handler ?opts store_model ?req ?w"
  let ?run' = "list_handler ?opts failing_model ?req' [''alice'']"
  let ?q = "\<lparr>q_base = Find [] [], q_sort = Some ''-createdAt'', q_populate = [],
                q_skip = None, q_limit = None\<rparr>"
  note odefs = normalize_options_def unpaginated_options_def default_options_def
    example_request_def not_false_def
  have off: "\<not> pagination_enabled ?opts"
    by (simp add: odefs)
  have s: "applySort ?opts (req_query ?req) = Inr ''-createdAt''"
    "applySort ?opts (req_query ?req') = Inr ''-createdAt''"
    by (simp_all add: applySort_def odefs)
  have f: "buildFilter ?opts (req_query ?req) = []" "buildFilter ?opts (req_query ?req') = []"
    by (simp_all add: buildFilter_def odefs)
  have q: "list_query ?opts [] ''-createdAt'' = ?q"
    by (simp add: list_query_def apply_populate_def sort_q_def find_q_def odefs)
  have r: "exec_find store_model ?q ?w = (Inr ?w, ?w)"
    and c: "countDocuments store_model [] ?w = (Inr (Num 2), ?w)"
    by (simp_all add: store_model_def)
  have r': "exec_find failing_model ?q [''alice''] = (Inl (Thrown (JStr ''read failed'')), [''alice''])"
    and c': "countDocuments failing_model [] [''alice'']
        = (Inl (Thrown (JStr ''count failed'')), [''alice''])"
    and n': "\<not> exec_settles_first failing_model [''alice'']"
    by (simp_all add: failing_model_def store_model_def)
  have run: "?run = (fst ?run, snd ?run)" and run': "?run' = (fst ?run', snd ?run')"
    by simp_all
  have a: "fst ?run = Some \<lparr>status = 200, payload = ListBody [''alice'', ''bob''] None\<rparr>
      \<and> trace (snd ?run) = [(Exec ?q, Returned), (CountDocuments [], Returned)]"
    using s f q r c unpaginated_list [OF off run]
    by auto
  have b: "fst ?run' = Some \<lparr>status = 500, payload = ErrorBody True (JStr ''count failed'')\<rparr>
      \<and> trace (snd ?run') = [(Exec ?q, Threw (Thrown (JStr ''read failed''))),
                    (CountDocuments [], Threw (Thrown (JStr ''count failed'')))]"
    using s f q r' c' n' unpaginated_list [OF off run']
    by (auto simp: or_else_def errorResponse_def status_json_def)
  show ?thesis
    using off a b by simp
qed

text \<open>
  C2 as stated fails: with pagination disabled the count is still invoked, after the read,
  and when it rejects the response is the 500 error envelope instead of 200 with \<open>{data}\<close>.
\<close>

theorem unpaginated_list_counterexample:
  "\<not> pagination_enabled (normalize_options unpaginated_options)
   \<and> list_handler (normalize_options unpaginated_options) store_model
        (example_request [] [] []) [''alice'']
      = (Some \<lparr>status = 200, payload = ListBody [''alice''] None\<rparr>,
         \<lparr>world = [''alice''],
           trace = [(Exec \<lparr>q_base = Find [] [], q_sort = Some ''-createdAt'', q_populate = [],
                            q_skip = None, q_limit = None\<rparr>, Returned),
                    (CountDocuments [], Returned)]\<rparr>)
   \<and> list_handler (normalize_options unpaginated_options) failing_count_model
        (example_request [] [] []) [''alice'']
      = (Some \<lparr>status = 500, payload = ErrorBody True (JStr ''count failed'')\<rparr>,
         \<lparr>world = [''alice''],
           trace = [(Exec \<lparr>q_base = Find [] [], q_sort = Some ''-createdAt'', q_populate = [],
                            q_skip = None, q_limit = None\<rparr>, Returned),
                    (CountDocuments [], Threw (Thrown (JStr ''count failed'')))]\<rparr>)"
  by (simp add: list_eval unpaginated_options_def failing_count_model_def)

subsection \<open>Create, update and delete\<close>

text \<open>
  C5. When a body-validation predicate is configured and returns a falsy result, the create
  handler responds 400 with \<open>{error: true, message: "Validation failed"}\<close>; the predicate
  is the only thing invoked, so the accessor's create operation is never invoked.
\<close>

theorem validation_failure:
  "validateBody opts = Some validate \<Longrightarrow>
   validate (req_body req) w = (Inr isValid, w') \<Longrightarrow>
   \<not> truthy isValid \<Longrightarrow>
   create_handler opts model req w = (res, st) \<Longrightarrow>
   res = Some \<lparr>status = 400, payload = ErrorBody True (JStr ''Validation failed'')\<rparr>
   \<and> (\<forall>b out. (Create b, out) \<notin> set (trace st))
   \<and> trace st = [(ValidateBody, Returned)]
   \<and> world st = w'"
  by (auto simp: create_handler_def Let_def run_defs)

theorem validation_failure_witness:
  "validateBody (normalize_options rejecting_options) = Some reject_all
   \<and> reject_all ''alice'' [] = (Inr (JBool False), [])
   \<and> \<not> truthy (JBool False)
   \<and> fst (create_handler (normalize_options rejecting_options)
        store_model (example_request [] [] ''alice'') [])
      = Some \<lparr>status = 400, payload = ErrorBody True (JStr ''Validation failed'')\<rparr>
   \<and> world (snd (create_handler (normalize_options rejecting_options)
        store_model (example_request [] [] ''alice'') [])) = []"
proof -
  let ?opts = "normalize_options rejecting_options"
  let ?req = "example_request [] [] ''alice''"
  let ?run = "create_handler ?opts store_model ?req []"
  have v: "validateBody ?opts = Some reject_all"
    by (simp add: normalize_options_def rejecting_options_def default_options_def)
  have r: "reject_all (req_body ?req) [] = (Inr (JBool False), [])"
    by (simp add: reject_all_def)
  have b: "req_body ?req = ''alice''"
    by (simp add: example_request_def)
  have f: "\<not> truthy (JBool False)"
    by simp
  have run: "?run = (fst ?run, snd ?run)"
    by simp
  show ?thesis
    using validation_failure [OF v r f run] v r b
    by simp
qed







end
